theory Spec2Isabelle
  imports Complex_Main
begin

section \<open>JavaScript values\<close>

text \<open>
  A JavaScript string is a sequence of UTF-16 code units; a code unit is modelled as a
  natural number. String literals of the source are written through \<open>lit\<close>. A JavaScript
  number is modelled by the rational it denotes; \<open>NaN\<close> and the infinities are not among
  these values. The products formatted on the movie card and in the chat are exact; the
  help center's percentage is computed in double arithmetic (see below). An optional property (\<open>field?: T\<close>, or a value
  that may be \<open>undefined\<close>/\<open>null\<close>) is an \<open>option\<close>.
\<close>

type_synonym jstring = "nat list"

type_synonym number = rat

definition lit :: "string \<Rightarrow> jstring" where
  "lit s = map of_char s"

text \<open>
  \<open>String.prototype.trim\<close> removes WhiteSpace and LineTerminator code points from both
  ends (ECMA-262): TAB, VT, FF, SP, NBSP, ZWNBSP, the Unicode space separators, LF, CR, LS
  and PS. All of them are single code units.
\<close>

definition isWhiteSpace :: "nat \<Rightarrow> bool" where
  "isWhiteSpace c =
     (c = 9 \<or> c = 10 \<or> c = 11 \<or> c = 12 \<or> c = 13 \<or> c = 32 \<or> c = 160 \<or> c = 5760 \<or>
      (8192 \<le> c \<and> c \<le> 8202) \<or> c = 8232 \<or> c = 8233 \<or> c = 8239 \<or> c = 8287 \<or>
      c = 12288 \<or> c = 65279)"

definition trim :: "jstring \<Rightarrow> jstring" where
  "trim s = rev (dropWhile isWhiteSpace (rev (dropWhile isWhiteSpace s)))"

text \<open>Truthiness of a string: every string but the empty one is truthy.\<close>

definition truthy_string :: "jstring \<Rightarrow> bool" where
  "truthy_string s = (s \<noteq> [])"

text \<open>Truthiness of an optional boolean: \<open>undefined\<close> and \<open>false\<close> are falsy.\<close>

definition truthy_flag :: "bool option \<Rightarrow> bool" where
  "truthy_flag b = (b = Some True)"

text \<open>The decimal digits of a natural number (\<open>Number.prototype.toString\<close> on a
  non-negative integer).\<close>

fun show_nat :: "nat \<Rightarrow> jstring" where
  "show_nat n = (if n < 10 then [48 + n] else show_nat (n div 10) @ [48 + n mod 10])"

declare show_nat.simps [simp del]

definition show_int :: "int \<Rightarrow> jstring" where
  "show_int i = (if i < 0 then lit ''-'' @ show_nat (nat (- i)) else show_nat (nat i))"

text \<open>
  \<open>Number.prototype.toFixed(f)\<close> (ECMA-262, for magnitudes below \<open>10^21\<close>; larger ones are
  printed in exponent notation and are outside the model): a negative number gives a
  minus sign and is negated; \<open>n\<close> is the integer for which \<open>n / 10^f - x\<close> is closest to
  zero, the larger one of two; its digits are padded with zeros to \<open>f + 1\<close> places and the
  point is put before the last \<open>f\<close>.
\<close>

definition toFixed_n :: "number \<Rightarrow> nat \<Rightarrow> nat" where
  "toFixed_n x f = nat \<lfloor>\<bar>x\<bar> * 10 ^ f + 1 / 2\<rfloor>"

definition toFixed :: "number \<Rightarrow> nat \<Rightarrow> jstring" where
  "toFixed x f =
     (let m = show_nat (toFixed_n x f);
          m' = replicate (f + 1 - length m) 48 @ m;
          k = length m'
      in (if x < 0 then lit ''-'' else []) @
         (if f = 0 then m' else take (k - f) m' @ lit ''.'' @ drop (k - f) m'))"

section \<open>Double arithmetic\<close>

text \<open>
  The help center computes its percentage as \<open>(1 - d) * 100\<close> on IEEE 754 doubles
  (binary64, round to nearest, ties to even), and the rounding decides the digit shown;
  that computation is modelled as the standard prescribes. A finite double is the rational it denotes
  (the sign of zero is not kept). \<open>binary_exponent x\<close> is the \<open>e\<close> with
  \<open>2^e \<le> |x| < 2^(e+1)\<close>, read off the bit lengths of numerator and denominator; the
  spacing of the doubles around \<open>x\<close> is \<open>2^(e - 52)\<close>, and \<open>2^(-1074)\<close> in the subnormal
  range; \<open>nearest_double\<close> rounds to that grid; a result beyond the largest double is
  an infinity.
\<close>

function bit_length :: "int \<Rightarrow> int" where
  "bit_length p = (if p \<le> 0 then 0 else 1 + bit_length (p div 2))"
  by pat_completeness auto
termination
  by (relation "measure nat") auto

declare bit_length.simps [simp del]

definition binary_exponent :: "rat \<Rightarrow> int" where
  "binary_exponent x =
     (let (p, q) = quotient_of \<bar>x\<bar>;
          c = bit_length p - bit_length q
      in if 2 powi c \<le> \<bar>x\<bar> then c else c - 1)"

definition round_even :: "rat \<Rightarrow> int" where
  "round_even q =
     (let f = \<lfloor>q\<rfloor>; r = q - of_int f
      in if r < 1 / 2 then f else if 1 / 2 < r then f + 1 else if even f then f else f + 1)"

definition ulp :: "rat \<Rightarrow> rat" where
  "ulp x = 2 powi (max (binary_exponent x) (- 1022) - 52)"

definition nearest_double :: "rat \<Rightarrow> rat" where
  "nearest_double x = (if x = 0 then 0 else of_int (round_even (x / ulp x)) * ulp x)"

definition max_double :: rat where
  "max_double = (2 ^ 53 - 1) * 2 ^ 971"

datatype double = Finite number | PosInfinity | NegInfinity | NaN

definition round_double :: "rat \<Rightarrow> double" where
  "round_double x =
     (let r = nearest_double x
      in if max_double < r then PosInfinity
         else if r < - max_double then NegInfinity
         else Finite r)"

text \<open>\<open>a - b\<close> on two finite doubles, and \<open>x * b\<close> for a double \<open>x\<close> and a finite
  double \<open>b\<close>.\<close>

definition double_sub :: "number \<Rightarrow> number \<Rightarrow> double" where
  "double_sub a b = round_double (a - b)"

fun double_mul :: "double \<Rightarrow> number \<Rightarrow> double" where
  "double_mul (Finite a) b = round_double (a * b)"
| "double_mul PosInfinity b = (if 0 < b then PosInfinity else if b < 0 then NegInfinity else NaN)"
| "double_mul NegInfinity b = (if 0 < b then NegInfinity else if b < 0 then PosInfinity else NaN)"
| "double_mul NaN b = NaN"

text \<open>The order of the doubles; \<open>NaN\<close> is not comparable.\<close>

fun double_le :: "double \<Rightarrow> double \<Rightarrow> bool" where
  "double_le NaN y = False"
| "double_le x NaN = False"
| "double_le NegInfinity y = True"
| "double_le x PosInfinity = True"
| "double_le (Finite a) (Finite b) = (a \<le> b)"
| "double_le PosInfinity y = False"
| "double_le x NegInfinity = False"

text \<open>
  \<open>toFixed\<close> on a double: a value that is not finite is printed by name; a finite one
  of magnitude \<open>10^21\<close> or more is printed in exponent notation, which is not modelled
  (\<open>None\<close>).
\<close>

definition toFixed_double :: "double \<Rightarrow> nat \<Rightarrow> jstring option" where
  "toFixed_double x f =
     (case x of
        Finite q \<Rightarrow> if \<bar>q\<bar> < 10 ^ 21 then Some (toFixed q f) else None
      | PosInfinity \<Rightarrow> Some (lit ''Infinity'')
      | NegInfinity \<Rightarrow> Some (lit ''-Infinity'')
      | NaN \<Rightarrow> Some (lit ''NaN''))"

section \<open>Requests\<close>

text \<open>
  A JSON value, an object literal whose properties may be \<open>undefined\<close>, and
  \<open>JSON.stringify\<close> on it: a property whose value is \<open>undefined\<close> is left out, the others
  keep their order.
\<close>

datatype json = JString jstring | JNumber number | JBool bool

type_synonym js_object = "(string \<times> json option) list"

type_synonym json_object = "(string \<times> json) list"

fun JSON_stringify :: "js_object \<Rightarrow> json_object" where
  "JSON_stringify [] = []"
| "JSON_stringify ((k, None) # ps) = JSON_stringify ps"
| "JSON_stringify ((k, Some v) # ps) = (k, v) # JSON_stringify ps"

record request =
  url :: string
  http_method :: string
  headers :: "(string \<times> string) list"
  body :: json_object

text \<open>
  What a thrown value is to the handlers: an \<open>Error\<close> with its message, or something else.
  What \<open>fetch\<close> does with a request is the environment's: the promise rejects, or a
  response arrives with its \<open>ok\<close> flag, its status and what \<open>response.json()\<close> gives
  (it rejects on a malformed body). An \<open>await\<close>ed handler is run to its end in one step.
\<close>

datatype thrown = Error jstring | NonError

datatype 'a fetched = Rejects thrown | Responds bool nat "thrown + 'a"

section \<open>The search API client\<close>

datatype SearchType = Vector | Filtered | Keyword | Hybrid | Range

record MovieResult =
  title :: jstring
  genre :: jstring
  rating :: "number + jstring"
  description :: jstring
  distance :: "number option"
  similarity :: "number option"
  score :: "number option"
  hybrid_score :: "number option"
  vector_similarity :: "number option"
  text_score :: "number option"

record SearchResponse =
  results :: "MovieResult list"
  count :: nat
  search_type :: jstring

record api_env =
  API_BASE :: string
  fetch :: "request \<Rightarrow> SearchResponse fetched"

text \<open>\<open>fetchApi\<close> returns the request it sent and what the caller gets: the parsed body,
  or the value thrown.\<close>

definition fetchApi :: "api_env \<Rightarrow> string \<Rightarrow> js_object \<Rightarrow> request \<times> (thrown + SearchResponse)" where
  "fetchApi env endpoint params =
     (let req = \<lparr>url = API_BASE env @ endpoint, http_method = ''POST'',
                 headers = [(''Content-Type'', ''application/json'')],
                 body = JSON_stringify params\<rparr>
      in (req,
          case fetch env req of
            Rejects e \<Rightarrow> Inl e
          | Responds ok status parsed \<Rightarrow>
              if \<not> ok then Inl (Error (lit ''API error: '' @ show_nat status)) else parsed))"

definition vectorSearch :: "api_env \<Rightarrow> js_object \<Rightarrow> request \<times> (thrown + SearchResponse)" where
  "vectorSearch env params = fetchApi env ''/search/vector'' params"

definition filteredSearch :: "api_env \<Rightarrow> js_object \<Rightarrow> request \<times> (thrown + SearchResponse)" where
  "filteredSearch env params = fetchApi env ''/search/filtered'' params"

definition keywordSearch :: "api_env \<Rightarrow> js_object \<Rightarrow> request \<times> (thrown + SearchResponse)" where
  "keywordSearch env params = fetchApi env ''/search/keyword'' params"

definition hybridSearch :: "api_env \<Rightarrow> js_object \<Rightarrow> request \<times> (thrown + SearchResponse)" where
  "hybridSearch env params = fetchApi env ''/search/hybrid'' params"

definition rangeSearch :: "api_env \<Rightarrow> js_object \<Rightarrow> request \<times> (thrown + SearchResponse)" where
  "rangeSearch env params = fetchApi env ''/search/range'' params"

section \<open>The movie search page\<close>

datatype AppPage = Movies | Help

record app_state =
  currentPage :: AppPage
  searchType :: SearchType
  results :: "MovieResult list"
  isLoading :: bool
  hasSearched :: bool
  error :: "jstring option"
  lastQuery :: jstring
  genre :: jstring
  minRating :: number
  alpha :: number
  distanceThreshold :: number
  numResults :: number

definition initial_state :: app_state where
  "initial_state =
     \<lparr>currentPage = Movies, searchType = Vector, results = [], isLoading = False,
      hasSearched = False, error = None, lastQuery = [], genre = lit ''all'',
      minRating = 1, alpha = 1 / 2, distanceThreshold = 1 / 2, numResults = 5\<rparr>"

text \<open>
  A handler made by \<open>useCallback\<close> reads the state variables of the render that made it:
  \<open>snap\<close> is that render's state, \<open>st\<close> the state the setters act on. The \<open>switch\<close> has a
  \<open>default\<close> branch (a vector search) that no value of \<open>SearchType\<close> reaches.
\<close>

definition search_call :: "api_env \<Rightarrow> app_state \<Rightarrow> jstring \<Rightarrow> request \<times> (thrown + SearchResponse)" where
  "search_call env snap query =
     (case searchType snap of
        Vector \<Rightarrow>
          vectorSearch env
            [(''query'', Some (JString query)), (''num_results'', Some (JNumber (numResults snap)))]
      | Filtered \<Rightarrow>
          filteredSearch env
            [(''query'', Some (JString query)), (''num_results'', Some (JNumber (numResults snap))),
             (''genre'',
                if app_state.genre snap \<noteq> lit ''all'' then Some (JString (app_state.genre snap)) else None),
             (''min_rating'',
                if minRating snap > 1 then Some (JNumber (minRating snap)) else None)]
      | Keyword \<Rightarrow>
          keywordSearch env
            [(''query'', Some (JString query)), (''num_results'', Some (JNumber (numResults snap)))]
      | Hybrid \<Rightarrow>
          hybridSearch env
            [(''query'', Some (JString query)), (''num_results'', Some (JNumber (numResults snap))),
             (''alpha'', Some (JNumber (alpha snap)))]
      | Range \<Rightarrow>
          rangeSearch env
            [(''query'', Some (JString query)), (''num_results'', Some (JNumber (numResults snap))),
             (''distance_threshold'', Some (JNumber (distanceThreshold snap)))])"

definition handleSearch :: "api_env \<Rightarrow> app_state \<Rightarrow> jstring \<Rightarrow> app_state \<Rightarrow> request list \<times> app_state" where
  "handleSearch env snap query st =
     (let st1 = st\<lparr>isLoading := True, error := None, hasSearched := True, lastQuery := query\<rparr>;
          (req, outcome) = search_call env snap query;
          st2 = (case outcome of
                   Inr response \<Rightarrow> st1\<lparr>app_state.results := SearchResponse.results response\<rparr>
                 | Inl err \<Rightarrow>
                     st1\<lparr>error := Some (case err of
                                          Error message \<Rightarrow> message
                                        | NonError \<Rightarrow> lit ''An error occurred while searching''),
                         app_state.results := []\<rparr>)
      in ([req], st2\<lparr>isLoading := False\<rparr>))"

text \<open>
  The tab handler sets the new type and, when a query has been run, schedules
  \<open>handleSearch(lastQuery)\<close> with \<open>setTimeout\<close>: the \<open>handleSearch\<close>, \<open>lastQuery\<close> and
  \<open>hasSearched\<close> it names are those of the render that made the handler.
\<close>

definition handleSearchTypeChange :: "api_env \<Rightarrow> app_state \<Rightarrow> SearchType \<Rightarrow> app_state \<Rightarrow> request list \<times> app_state" where
  "handleSearchTypeChange env snap type st =
     (let st1 = st\<lparr>searchType := type\<rparr>
      in if truthy_string (lastQuery snap) \<and> hasSearched snap
         then handleSearch env snap (lastQuery snap) st1
         else ([], st1))"

text \<open>The search form: \<open>handleSubmit\<close> gives the argument \<open>onSearch\<close> is called with, if
  it is called.\<close>

definition handleSubmit :: "jstring \<Rightarrow> jstring option" where
  "handleSubmit query = (if truthy_string (trim query) then Some (trim query) else None)"

section \<open>The filter panel and the events of the page\<close>

text \<open>
  \<open>FilterPanel\<close> renders nothing when none of the four mode-specific controls is shown;
  otherwise it renders those of the mode and the results slider. \<open>range_attrs\<close> gives the
  \<open>min\<close>, \<open>max\<close> and \<open>step\<close> attributes the source writes on each slider (a range input
  without a \<open>step\<close> attribute has step 1).
\<close>

datatype control = GenreSelect | MinRatingSlider | AlphaSlider | DistanceSlider | NumResultsSlider

definition genres :: "jstring list" where
  "genres = [lit ''all'', lit ''action'', lit ''comedy'', lit ''romance'']"

definition FilterPanel :: "SearchType \<Rightarrow> control list" where
  "FilterPanel t =
     (let showGenreFilter = (t = Filtered);
          showRatingFilter = (t = Filtered);
          showAlphaSlider = (t = Hybrid);
          showDistanceSlider = (t = Range)
      in if \<not> showGenreFilter \<and> \<not> showRatingFilter \<and> \<not> showAlphaSlider \<and> \<not> showDistanceSlider
         then []
         else (if showGenreFilter then [GenreSelect] else []) @
              (if showRatingFilter then [MinRatingSlider] else []) @
              (if showAlphaSlider then [AlphaSlider] else []) @
              (if showDistanceSlider then [DistanceSlider] else []) @
              [NumResultsSlider])"

fun range_attrs :: "control \<Rightarrow> (number \<times> number \<times> number) option" where
  "range_attrs GenreSelect = None"
| "range_attrs MinRatingSlider = Some (1, 10, 1)"
| "range_attrs AlphaSlider = Some (0, 1, 1 / 20)"
| "range_attrs DistanceSlider = Some (1 / 10, 1, 1 / 20)"
| "range_attrs NumResultsSlider = Some (1, 20, 1)"

text \<open>
  The browser's part, not the repository's: the value of an \<open>input type=range\<close> is kept
  within \<open>min\<close> and \<open>max\<close> and on the step grid that starts at \<open>min\<close> (HTML, value
  sanitization of the Range state), and a \<open>select\<close> reports the value of one of its
  options.
\<close>

definition range_value :: "number \<Rightarrow> number \<Rightarrow> number \<Rightarrow> number \<Rightarrow> bool" where
  "range_value lo hi stp v =
     (lo \<le> v \<and> v \<le> hi \<and> of_int \<lfloor>(v - lo) / stp\<rfloor> = (v - lo) / stp)"

datatype ui_event =
    Submit jstring
  | TabClick SearchType
  | GenreChange jstring
  | SliderChange control number
  | NavClick AppPage

definition enabled :: "app_state \<Rightarrow> ui_event \<Rightarrow> bool" where
  "enabled st ev =
     (case ev of
        NavClick p \<Rightarrow> True
      | Submit q \<Rightarrow> currentPage st = Movies
      | TabClick t \<Rightarrow> currentPage st = Movies
      | GenreChange g \<Rightarrow>
          currentPage st = Movies \<and> List.member (FilterPanel (searchType st)) GenreSelect \<and>
          List.member genres g
      | SliderChange c v \<Rightarrow>
          currentPage st = Movies \<and> List.member (FilterPanel (searchType st)) c \<and>
          (case range_attrs c of
             None \<Rightarrow> False
           | Some (lo, hi, stp) \<Rightarrow> range_value lo hi stp v))"

text \<open>One event of the page, handled by the handlers of the current render.\<close>

definition ui_step :: "api_env \<Rightarrow> app_state \<Rightarrow> ui_event \<Rightarrow> request list \<times> app_state" where
  "ui_step env st ev =
     (case ev of
        NavClick p \<Rightarrow> ([], st\<lparr>currentPage := p\<rparr>)
      | Submit q \<Rightarrow>
          (case handleSubmit q of
             None \<Rightarrow> ([], st)
           | Some q' \<Rightarrow> handleSearch env st q' st)
      | TabClick t \<Rightarrow> handleSearchTypeChange env st t st
      | GenreChange g \<Rightarrow> ([], st\<lparr>app_state.genre := g\<rparr>)
      | SliderChange c v \<Rightarrow>
          ([], case c of
                 GenreSelect \<Rightarrow> st
               | MinRatingSlider \<Rightarrow> st\<lparr>minRating := v\<rparr>
               | AlphaSlider \<Rightarrow> st\<lparr>alpha := v\<rparr>
               | DistanceSlider \<Rightarrow> st\<lparr>distanceThreshold := v\<rparr>
               | NumResultsSlider \<Rightarrow> st\<lparr>numResults := v\<rparr>))"

inductive reachable :: "app_state \<Rightarrow> bool" where
  reachable_init: "reachable initial_state"
| reachable_step: "reachable st \<Longrightarrow> enabled st ev \<Longrightarrow> reachable (snd (ui_step env st ev))"

section \<open>The movie card\<close>

text \<open>Rendered output: text, and elements with their class name and children.\<close>

datatype node = Text jstring | Element string "node list"

definition getScoreDisplay :: "MovieResult \<Rightarrow> string \<Rightarrow> (jstring \<times> jstring) option" where
  "getScoreDisplay movie searchType' =
     (case (if searchType' = ''vector'' \<or> searchType' = ''filtered'' \<or> searchType' = ''range''
            then (case similarity movie of
                    None \<Rightarrow> None
                  | Some s \<Rightarrow> Some (lit ''Similarity'', toFixed (s * 100) 1 @ lit ''%''))
            else None) of
        Some shown \<Rightarrow> Some shown
      | None \<Rightarrow>
          (case (if searchType' = ''keyword'' then score movie else None) of
             Some sc \<Rightarrow> Some (lit ''BM25 Score'', toFixed sc 2)
           | None \<Rightarrow> None))"

definition breakdown_item :: "string \<Rightarrow> number option \<Rightarrow> nat \<Rightarrow> node" where
  "breakdown_item label v f =
     Element ''breakdown-item''
       [Element ''span'' [Text (lit label)],
        Element ''span'' [Text (case v of None \<Rightarrow> lit ''N/A'' | Some x \<Rightarrow> toFixed x f)]]"

text \<open>The part of the card below the description: the score line and the hybrid
  breakdown. The rest of the card does not read the scores.\<close>

definition MovieCard :: "MovieResult \<Rightarrow> string \<Rightarrow> node list" where
  "MovieCard movie searchType' =
     (case getScoreDisplay movie searchType' of
        None \<Rightarrow> []
      | Some (label, v) \<Rightarrow>
          [Element ''movie-score''
             [Element ''score-label'' [Text label, Text (lit '':'')],
              Element ''score-value'' [Text v]]]) @
     (if searchType' = ''hybrid''
      then [Element ''hybrid-breakdown''
              [breakdown_item ''Vector Similarity:'' (vector_similarity movie) 3,
               breakdown_item ''Text Score:'' (text_score movie) 2,
               breakdown_item ''Hybrid Score:'' (hybrid_score movie) 3]]
      else [])"

text \<open>The string \<open>ResultsGrid\<close> passes down for each search type.\<close>

fun type_name :: "SearchType \<Rightarrow> string" where
  "type_name Vector = ''vector''"
| "type_name Filtered = ''filtered''"
| "type_name Keyword = ''keyword''"
| "type_name Hybrid = ''hybrid''"
| "type_name Range = ''range''"

section \<open>The help chat\<close>

record HelpArticleSource =
  id' :: jstring
  title :: jstring
  category :: jstring
  content :: jstring
  similarity :: "number option"

record TokenUsage =
  prompt_tokens :: int
  completion_tokens :: int
  total_tokens :: int

datatype role = User | Assistant

record HelpChatMessage =
  id' :: jstring
  role :: role
  content :: jstring
  timestamp :: jstring
  sources :: "HelpArticleSource list option"
  fromCache :: "bool option"
  cacheSimilarity :: "number option"
  responseTimeMs :: "int option"
  tokenUsage :: "TokenUsage option"
  blocked :: "bool option"

record HelpChatResponse =
  answer :: jstring
  sources :: "HelpArticleSource list"
  from_cache :: bool
  cache_similarity :: "number option"
  response_time_ms :: int
  token_usage :: "TokenUsage option"
  blocked :: "bool option"

record chat_state =
  messages :: "HelpChatMessage list"
  input :: jstring
  isLoading :: bool

text \<open>
  The environment of one \<open>sendMessage\<close>: what \<open>fetch\<close> does with the request, and the
  clock: \<open>Date.now()\<close> and \<open>new Date().toISOString()\<close> when the user's message is built
  and when the reply (or the error) is.
\<close>

record chat_env =
  fetch :: "request \<Rightarrow> HelpChatResponse fetched"
  now_sent :: nat
  iso_sent :: jstring
  now_replied :: nat
  iso_replied :: jstring

definition userMessage :: "chat_env \<Rightarrow> jstring \<Rightarrow> HelpChatMessage" where
  "userMessage env text =
     \<lparr>id' = show_nat (now_sent env), role = User, content = text, timestamp = iso_sent env,
      sources = None, fromCache = None, cacheSimilarity = None, responseTimeMs = None,
      tokenUsage = None, blocked = None\<rparr>"

definition botMessage :: "chat_env \<Rightarrow> HelpChatResponse \<Rightarrow> HelpChatMessage" where
  "botMessage env data =
     \<lparr>id' = show_nat (now_replied env + 1), role = Assistant, content = answer data,
      timestamp = iso_replied env, sources = Some (HelpChatResponse.sources data),
      fromCache = Some (from_cache data), cacheSimilarity = cache_similarity data,
      responseTimeMs = Some (response_time_ms data), tokenUsage = token_usage data,
      blocked = HelpChatResponse.blocked data\<rparr>"

definition errorMessage :: "chat_env \<Rightarrow> HelpChatMessage" where
  "errorMessage env =
     \<lparr>id' = show_nat (now_replied env + 1), role = Assistant,
      content = lit ''Sorry, I encountered an error. Please try again.'',
      timestamp = iso_replied env, sources = None, fromCache = None, cacheSimilarity = None,
      responseTimeMs = None, tokenUsage = None, blocked = None\<rparr>"

text \<open>
  \<open>sendMessage\<close> reads \<open>isLoading\<close> of the render that made it (\<open>snap\<close>); the setters
  act on the current state, the two appends through \<open>prev => [...prev, m]\<close>.
\<close>

definition chat_request :: "jstring \<Rightarrow> request" where
  "chat_request text =
     \<lparr>url = ''/api/help/chat'', http_method = ''POST'',
      headers = [(''Content-Type'', ''application/json'')],
      body = JSON_stringify
               [(''message'', Some (JString text)), (''use_cache'', Some (JBool True))]\<rparr>"

definition sendMessage :: "chat_env \<Rightarrow> chat_state \<Rightarrow> jstring \<Rightarrow> chat_state \<Rightarrow> request list \<times> chat_state" where
  "sendMessage env snap text st =
     (if \<not> truthy_string (trim text) \<or> chat_state.isLoading snap then ([], st)
      else
        let st1 = st\<lparr>messages := messages st @ [userMessage env text], input := [],
                     chat_state.isLoading := True\<rparr>;
            req = chat_request text;
            outcome =
              (case chat_env.fetch env req of
                 Rejects e \<Rightarrow> Inl e
               | Responds ok status parsed \<Rightarrow>
                   if \<not> ok then Inl (Error (lit ''Failed to get response'')) else parsed);
            st2 = (case outcome of
                     Inr data \<Rightarrow> st1\<lparr>messages := messages st1 @ [botMessage env data]\<rparr>
                   | Inl err \<Rightarrow> st1\<lparr>messages := messages st1 @ [errorMessage env]\<rparr>)
        in ([req], st2\<lparr>chat_state.isLoading := False\<rparr>))"

text \<open>The form and the suggestion buttons both go through \<open>sendMessage\<close>.\<close>

definition chat_handleSubmit :: "chat_env \<Rightarrow> chat_state \<Rightarrow> request list \<times> chat_state" where
  "chat_handleSubmit env st = sendMessage env st (input st) st"

definition handleSuggestionClick :: "chat_env \<Rightarrow> chat_state \<Rightarrow> jstring \<Rightarrow> request list \<times> chat_state" where
  "handleSuggestionClick env st suggestion = sendMessage env st suggestion st"

text \<open>
  The \<open>response-info\<close> row of \<open>MessageBubble\<close>. In \<open>a && b && <span/>\<close> React renders
  nothing for \<open>false\<close> and \<open>undefined\<close>, and the text \<open>0\<close> for the number 0.
\<close>

definition response_info :: "HelpChatMessage \<Rightarrow> node list" where
  "response_info message =
     (if role message = Assistant
      then [Element ''response-info''
              ([if truthy_flag (HelpChatMessage.blocked message)
                then Element ''blocked-badge'' [Text (lit ''Off-topic'')]
                else if truthy_flag (fromCache message)
                then Element ''cache-badge'' [Text (lit ''Cached'')]
                else Element ''llm-badge'' [Text (lit ''LLM'')]] @
               (case responseTimeMs message of
                  None \<Rightarrow> []
                | Some t \<Rightarrow> [Element ''response-time'' [Text (show_int t), Text (lit ''ms'')]]) @
               (case tokenUsage message of
                  None \<Rightarrow> []
                | Some u \<Rightarrow>
                    [Element ''token-usage'' [Text (show_int (total_tokens u)), Text (lit '' tokens'')]]) @
               (if truthy_flag (fromCache message)
                then (case cacheSimilarity message of
                        None \<Rightarrow> []
                      | Some c \<Rightarrow>
                          if c = 0 then [Text (lit ''0'')]
                          else [Element ''cache-similarity''
                                  [Text (toFixed (c * 100) 0), Text (lit ''% match'')]])
                else []))]
      else [])"

section \<open>The help center statistics\<close>

record cache_stats =
  name :: jstring
  ttl :: "number option"
  distance_threshold :: "number option"
  num_entries :: "number option"
  status :: "jstring option"

record HelpStats =
  index_name :: jstring
  num_articles :: number
  index_status :: jstring
  cache_stats :: "cache_stats option"

text \<open>\<open>stats.cache_stats?.distance_threshold || 0\<close>: 0 when the statistics or the
  threshold are missing (and when the threshold is 0).\<close>

definition distance_threshold_or_0 :: "HelpStats \<Rightarrow> number" where
  "distance_threshold_or_0 stats =
     (case cache_stats stats of
        None \<Rightarrow> 0
      | Some cs \<Rightarrow>
          (case distance_threshold cs of
             None \<Rightarrow> 0
           | Some d \<Rightarrow> if d = 0 then 0 else d))"

text \<open>The percentage, computed on doubles, and the text shown: \<open>toFixed(0)\<close> of it and
  a percent sign.\<close>

definition similarity_threshold_percent :: "HelpStats \<Rightarrow> double" where
  "similarity_threshold_percent stats =
     double_mul (double_sub 1 (distance_threshold_or_0 stats)) 100"

definition similarity_threshold_display :: "HelpStats \<Rightarrow> jstring option" where
  "similarity_threshold_display stats =
     map_option (\<lambda>s. s @ lit ''%'') (toFixed_double (similarity_threshold_percent stats) 0)"

section \<open>Observations on requests and rendered output\<close>

text \<open>The endpoint of each search mode, as the interface names them.\<close>

fun mode_endpoint :: "SearchType \<Rightarrow> string" where
  "mode_endpoint Vector = ''/search/vector''"
| "mode_endpoint Filtered = ''/search/filtered''"
| "mode_endpoint Keyword = ''/search/keyword''"
| "mode_endpoint Hybrid = ''/search/hybrid''"
| "mode_endpoint Range = ''/search/range''"

text \<open>A JSON body has a field; a numeric field, when it is there, lies between two bounds.\<close>

definition has_key :: "json_object \<Rightarrow> string \<Rightarrow> bool" where
  "has_key b k = (map_of b k \<noteq> None)"

definition field_in_range :: "json_object \<Rightarrow> string \<Rightarrow> number \<Rightarrow> number \<Rightarrow> bool" where
  "field_in_range b k lo hi =
     (case map_of b k of
        None \<Rightarrow> True
      | Some (JNumber n) \<Rightarrow> lo \<le> n \<and> n \<le> hi
      | Some _ \<Rightarrow> False)"

definition options_in_range :: "app_state \<Rightarrow> bool" where
  "options_in_range st =
     (1 \<le> numResults st \<and> numResults st \<le> 20 \<and> 0 \<le> alpha st \<and> alpha st \<le> 1 \<and>
      1 / 10 \<le> distanceThreshold st \<and> distanceThreshold st \<le> 1 \<and>
      1 \<le> minRating st \<and> minRating st \<le> 10)"

text \<open>The children of the \<open>response-info\<close> row, the elements of given classes among
  rendered nodes, the status badges and the token-usage indicator.\<close>

definition info_children :: "HelpChatMessage \<Rightarrow> node list" where
  "info_children m = (case response_info m of [Element c ch] \<Rightarrow> ch | _ \<Rightarrow> [])"

fun has_class :: "string list \<Rightarrow> node \<Rightarrow> bool" where
  "has_class cs (Element c ch) = List.member cs c"
| "has_class cs (Text t) = False"

definition badges :: "node list \<Rightarrow> node list" where
  "badges ns = filter (has_class [''blocked-badge'', ''cache-badge'', ''llm-badge'']) ns"

definition token_usage_shown :: "node list \<Rightarrow> bool" where
  "token_usage_shown ns = list_ex (has_class [''token-usage'']) ns"

text \<open>The score line of a movie card, and the text of one component of the hybrid
  breakdown.\<close>

definition score_lines :: "node list \<Rightarrow> node list" where
  "score_lines ns = filter (has_class [''movie-score'']) ns"

definition score_line :: "string \<Rightarrow> jstring \<Rightarrow> node" where
  "score_line label v =
     Element ''movie-score''
       [Element ''score-label'' [Text (lit label), Text (lit '':'')], Element ''score-value'' [Text v]]"

definition component_text :: "number option \<Rightarrow> nat \<Rightarrow> jstring" where
  "component_text v f = (case v of None \<Rightarrow> lit ''N/A'' | Some x \<Rightarrow> toFixed x f)"

text \<open>
  Reading a displayed percentage back: decimal digits, an optional minus sign before
  them, and the percent sign at the end. \<open>shown_percent\<close> is the integer the statistics
  panel shows.
\<close>

definition read_nat :: "jstring \<Rightarrow> nat option" where
  "read_nat ds =
     (if ds \<noteq> [] \<and> list_all (\<lambda>c. 48 \<le> c \<and> c \<le> 57) ds
      then Some (foldl (\<lambda>a c. 10 * a + (c - 48)) 0 ds)
      else None)"

definition read_int :: "jstring \<Rightarrow> int option" where
  "read_int s =
     (case s of
        [] \<Rightarrow> None
      | c # ds \<Rightarrow>
          if c = 45 then map_option (\<lambda>n. - int n) (read_nat ds)
          else map_option int (read_nat s))"

definition read_percent :: "jstring \<Rightarrow> int option" where
  "read_percent s = (if s \<noteq> [] \<and> last s = 37 then read_int (butlast s) else None)"

definition shown_percent :: "HelpStats \<Rightarrow> int option" where
  "shown_percent stats =
     (case similarity_threshold_display stats of
        None \<Rightarrow> None
      | Some s \<Rightarrow> read_percent s)"

text \<open>The integer \<open>toFixed(0)\<close> prints for a number: the nearest one, the one farther
  from zero of two.\<close>

definition printed_integer :: "number \<Rightarrow> int" where
  "printed_integer x = (if x < 0 then - int (toFixed_n x 0) else int (toFixed_n x 0))"

section \<open>Example inputs\<close>

definition example_env :: api_env where
  "example_env = \<lparr>API_BASE = ''/api'', fetch = (\<lambda>r. Rejects (Error (lit ''Failed to fetch'')))\<rparr>"

definition example_chat_env :: chat_env where
  "example_chat_env =
     \<lparr>fetch = (\<lambda>r. Responds False 500 (Inl NonError)), now_sent = 1000, iso_sent = lit ''t1'',
      now_replied = 2000, iso_replied = lit ''t2''\<rparr>"

definition example_chat_state :: chat_state where
  "example_chat_state = \<lparr>messages = [], input = lit ''hi'', isLoading = False\<rparr>"

definition example_reply :: HelpChatResponse where
  "example_reply =
     \<lparr>answer = lit ''no'', sources = [], from_cache = True, cache_similarity = None,
      response_time_ms = 12, token_usage = None, blocked = Some True\<rparr>"

definition example_movie :: MovieResult where
  "example_movie =
     \<lparr>MovieResult.title = lit ''Heat'', genre = lit ''action'', rating = Inl 8, description = lit ''Heist'',
      distance = None, similarity = Some (857 / 1000), score = None, hybrid_score = None,
      vector_similarity = None, text_score = None\<rparr>"

definition example_stats :: "number option \<Rightarrow> HelpStats" where
  "example_stats d =
     \<lparr>index_name = lit ''help'', num_articles = 3, index_status = lit ''active'',
      cache_stats = Some \<lparr>name = lit ''cache'', ttl = Some 60, distance_threshold = d,
                          num_entries = Some 0, status = Some (lit ''active'')\<rparr>\<rparr>"

definition example_hybrid_state :: app_state where
  "example_hybrid_state =
     snd (ui_step example_env (snd (ui_step example_env initial_state (TabClick Hybrid)))
            (SliderChange AlphaSlider (3 / 4)))"

definition example_filtered_state :: app_state where
  "example_filtered_state = initial_state\<lparr>searchType := Filtered, app_state.genre := lit ''action''\<rparr>"

section \<open>Auxiliary facts\<close>

lemma lit_eq_iff: "lit a = lit b \<longleftrightarrow> a = b"
  unfolding lit_def by (simp add: inj_def)

lemma floor_rat_numeral: "\<lfloor>(numeral a / numeral b :: rat)\<rfloor> = numeral a div numeral b"
  by (metis floor_divide_of_int_eq of_int_numeral)

lemma trim_nonempty: "trim s \<noteq> [] \<Longrightarrow> s \<noteq> []"
  by (auto simp: trim_def)

lemma trim_cats: "trim (lit '' cats '') = lit ''cats''"
  by (simp add: trim_def lit_def isWhiteSpace_def)

lemma trim_blank: "trim (lit ''   '') = []"
  by (simp add: trim_def lit_def isWhiteSpace_def)

lemma trim_hi: "trim (lit ''hi'') = lit ''hi''"
  by (simp add: trim_def lit_def isWhiteSpace_def)

lemma mode_endpoint_inj: "mode_endpoint a = mode_endpoint b \<longleftrightarrow> a = b"
  by (cases a; cases b; simp)

lemmas search_defs = search_call_def vectorSearch_def filteredSearch_def keywordSearch_def
  hybridSearch_def rangeSearch_def fetchApi_def

text \<open>The request a search sends, mode by mode.\<close>

lemma fst_search_call:
  "fst (search_call env snap q) =
     \<lparr>url = API_BASE env @ mode_endpoint (searchType snap), http_method = ''POST'',
      headers = [(''Content-Type'', ''application/json'')],
      body = (case searchType snap of
                Vector \<Rightarrow> [(''query'', JString q), (''num_results'', JNumber (numResults snap))]
              | Filtered \<Rightarrow>
                  [(''query'', JString q), (''num_results'', JNumber (numResults snap))] @
                  (if app_state.genre snap \<noteq> lit ''all''
                   then [(''genre'', JString (app_state.genre snap))] else []) @
                  (if minRating snap > 1 then [(''min_rating'', JNumber (minRating snap))] else [])
              | Keyword \<Rightarrow> [(''query'', JString q), (''num_results'', JNumber (numResults snap))]
              | Hybrid \<Rightarrow> [(''query'', JString q), (''num_results'', JNumber (numResults snap)),
                           (''alpha'', JNumber (alpha snap))]
              | Range \<Rightarrow> [(''query'', JString q), (''num_results'', JNumber (numResults snap)),
                          (''distance_threshold'', JNumber (distanceThreshold snap))])\<rparr>"
  by (cases "searchType snap") (simp_all add: search_defs Let_def)

lemma fst_handleSearch: "fst (handleSearch env snap q st) = [fst (search_call env snap q)]"
  by (simp add: handleSearch_def Let_def split: prod.split)

lemma search_call_query_nonempty:
  "q \<noteq> [] \<Longrightarrow>
   \<exists>q'. map_of (body (fst (search_call env snap q))) ''query'' = Some (JString q') \<and> q' \<noteq> []"
  by (cases "searchType snap"; simp add: fst_search_call)

text \<open>\<open>handleSearch\<close> writes the loading flag, the error, the query and the results, and
  leaves the options alone.\<close>

lemma handleSearch_keeps_options:
  "numResults (snd (handleSearch env snap q st)) = numResults st"
  "alpha (snd (handleSearch env snap q st)) = alpha st"
  "distanceThreshold (snd (handleSearch env snap q st)) = distanceThreshold st"
  "minRating (snd (handleSearch env snap q st)) = minRating st"
  by (simp_all add: handleSearch_def Let_def split: prod.split sum.split thrown.split)

lemma handleSearch_options_in_range:
  "options_in_range (snd (handleSearch env snap q st)) = options_in_range st"
  by (simp add: options_in_range_def handleSearch_keeps_options)

lemma handleSearch_keeps_type:
  "searchType (snd (handleSearch env snap q st)) = searchType st"
  by (simp add: handleSearch_def Let_def split: prod.split sum.split thrown.split)

lemma range_value_bounds: "range_value lo hi stp v \<Longrightarrow> lo \<le> v \<and> v \<le> hi"
  by (simp add: range_value_def)

lemma ui_step_options_in_range:
  assumes "options_in_range st" and "enabled st ev"
  shows "options_in_range (snd (ui_step env st ev))"
proof (cases ev)
  case (Submit q)
  with assms show ?thesis
    by (simp add: ui_step_def handleSearch_options_in_range split: option.split)
next
  case (TabClick t)
  with assms show ?thesis
    by (simp add: ui_step_def handleSearchTypeChange_def Let_def handleSearch_options_in_range)
       (simp add: options_in_range_def)
next
  case (GenreChange g)
  with assms show ?thesis by (simp add: ui_step_def options_in_range_def)
next
  case (SliderChange c v)
  with assms have "case range_attrs c of None \<Rightarrow> False | Some (lo, hi, stp) \<Rightarrow> range_value lo hi stp v"
    by (simp add: enabled_def)
  with assms SliderChange show ?thesis
    by (cases c) (auto simp: ui_step_def options_in_range_def dest: range_value_bounds)
next
  case (NavClick p)
  with assms show ?thesis by (simp add: ui_step_def options_in_range_def)
qed

lemma reachable_options_in_range: "reachable st \<Longrightarrow> options_in_range st"
proof (induction rule: reachable.induct)
  case reachable_init
  show ?case by (simp add: options_in_range_def initial_state_def)
next
  case (reachable_step st ev env)
  then show ?case by (simp add: ui_step_options_in_range)
qed

lemma search_call_in_range:
  assumes "options_in_range snap"
  shows "(\<exists>n. map_of (body (fst (search_call env snap q))) ''num_results'' = Some (JNumber n) \<and>
              1 \<le> n \<and> n \<le> 20) \<and>
         field_in_range (body (fst (search_call env snap q))) ''alpha'' 0 1 \<and>
         field_in_range (body (fst (search_call env snap q))) ''distance_threshold'' (1 / 10) 1 \<and>
         field_in_range (body (fst (search_call env snap q))) ''min_rating'' 1 10"
  using assms
  by (cases "searchType snap"; simp add: fst_search_call field_in_range_def options_in_range_def)

lemma ui_step_requests:
  "r \<in> set (fst (ui_step env st ev)) \<Longrightarrow> \<exists>q. r = fst (search_call env st q)"
  by (cases ev)
     (auto simp: ui_step_def handleSearchTypeChange_def Let_def fst_handleSearch
        split: option.splits if_splits)

text \<open>The badge and the token-usage indicator of an assistant message.\<close>

lemma badges_info:
  "role m = Assistant \<Longrightarrow>
   badges (info_children m) =
     [if HelpChatMessage.blocked m = Some True
      then Element ''blocked-badge'' [Text (lit ''Off-topic'')]
      else if fromCache m = Some True then Element ''cache-badge'' [Text (lit ''Cached'')]
      else Element ''llm-badge'' [Text (lit ''LLM'')]]"
  apply (simp add: info_children_def response_info_def)
  apply (simp add: badges_def truthy_flag_def split: option.split)
  done

lemma token_usage_info:
  "role m = Assistant \<Longrightarrow> token_usage_shown (info_children m) \<longleftrightarrow> tokenUsage m \<noteq> None"
  apply (simp add: info_children_def response_info_def)
  apply (simp add: token_usage_shown_def truthy_flag_def split: option.split)
  done

lemma toFixed_example: "toFixed (857 / 1000 * 100) 1 @ lit ''%'' = lit ''85.7%''"
  by (simp add: toFixed_def toFixed_n_def lit_def floor_rat_numeral show_nat.simps Let_def)

section \<open>The help chat's status badge\<close>

text \<open>
  C1. Every assistant message shows exactly one status badge, chosen in a fixed order:
  \<open>Off-topic\<close> when \<open>blocked\<close> is true (also when \<open>from_cache\<close> is true as well), otherwise
  \<open>Cached\<close> when \<open>from_cache\<close> is true, otherwise \<open>LLM\<close>. The token-usage indicator is
  shown exactly when the message carries a token usage. For the message built from a
  reply, the flags and the token usage are the reply's.
\<close>

theorem status_badge_precedence:
  "(role m = Assistant \<longrightarrow>
      badges (info_children m) =
        [if HelpChatMessage.blocked m = Some True
         then Element ''blocked-badge'' [Text (lit ''Off-topic'')]
         else if fromCache m = Some True then Element ''cache-badge'' [Text (lit ''Cached'')]
         else Element ''llm-badge'' [Text (lit ''LLM'')]] \<and>
      (token_usage_shown (info_children m) \<longleftrightarrow> tokenUsage m \<noteq> None)) \<and>
   badges (info_children (botMessage env data)) =
     [if HelpChatResponse.blocked data = Some True
      then Element ''blocked-badge'' [Text (lit ''Off-topic'')]
      else if from_cache data then Element ''cache-badge'' [Text (lit ''Cached'')]
      else Element ''llm-badge'' [Text (lit ''LLM'')]] \<and>
   (token_usage_shown (info_children (botMessage env data)) \<longleftrightarrow> token_usage data \<noteq> None)"
proof -
  have a: "role (botMessage env data) = Assistant" by (simp add: botMessage_def)
  have b: "HelpChatMessage.blocked (botMessage env data) = HelpChatResponse.blocked data"
    "fromCache (botMessage env data) = Some (from_cache data)"
    "tokenUsage (botMessage env data) = token_usage data"
    by (simp_all add: botMessage_def)
  show ?thesis
    using badges_info [of m] token_usage_info [of m] badges_info [OF a] token_usage_info [OF a]
    by (simp add: b)
qed

theorem status_badge_precedence_witness:
  "role (errorMessage example_chat_env) = Assistant \<and>
   badges (info_children (errorMessage example_chat_env)) = [Element ''llm-badge'' [Text (lit ''LLM'')]] \<and>
   \<not> token_usage_shown (info_children (errorMessage example_chat_env)) \<and>
   badges (info_children (botMessage example_chat_env example_reply)) =
     [Element ''blocked-badge'' [Text (lit ''Off-topic'')]] \<and>
   \<not> token_usage_shown (info_children (botMessage example_chat_env example_reply))"
  using status_badge_precedence [of "errorMessage example_chat_env" example_chat_env example_reply]
  by (simp add: errorMessage_def example_reply_def)

section \<open>The search request\<close>

text \<open>
  C2. A search sends exactly one request: a POST to the endpoint of the mode the handler
  reads, with \<open>query\<close> and \<open>num_results\<close> in its body, \<open>alpha\<close> exactly in hybrid mode,
  \<open>distance_threshold\<close> exactly in range mode, and \<open>genre\<close> and \<open>min_rating\<close> in filtered
  mode only. Submitting the form with a query that is not blank runs that search on the
  trimmed query with the current mode.
\<close>

theorem search_request_shape:
  "(\<exists>r. fst (handleSearch env snap q st) = [r] \<and> http_method r = ''POST'' \<and>
        url r = API_BASE env @ mode_endpoint (searchType snap) \<and>
        map_of (body r) ''query'' = Some (JString q) \<and>
        map_of (body r) ''num_results'' = Some (JNumber (numResults snap)) \<and>
        (has_key (body r) ''alpha'' \<longleftrightarrow> searchType snap = Hybrid) \<and>
        (has_key (body r) ''distance_threshold'' \<longleftrightarrow> searchType snap = Range) \<and>
        (has_key (body r) ''genre'' \<longrightarrow> searchType snap = Filtered) \<and>
        (has_key (body r) ''min_rating'' \<longrightarrow> searchType snap = Filtered)) \<and>
   (trim query \<noteq> [] \<longrightarrow>
      ui_step env st (Submit query) = handleSearch env st (trim query) st)"
proof -
  let ?r = "fst (search_call env snap q)"
  have "fst (handleSearch env snap q st) = [?r]" by (rule fst_handleSearch)
  moreover have "http_method ?r = ''POST''" "url ?r = API_BASE env @ mode_endpoint (searchType snap)"
    by (simp_all add: fst_search_call)
  moreover have "map_of (body ?r) ''query'' = Some (JString q)"
    "map_of (body ?r) ''num_results'' = Some (JNumber (numResults snap))"
    by (cases "searchType snap"; simp add: fst_search_call)+
  moreover have "has_key (body ?r) ''alpha'' \<longleftrightarrow> searchType snap = Hybrid"
    "has_key (body ?r) ''distance_threshold'' \<longleftrightarrow> searchType snap = Range"
    "has_key (body ?r) ''genre'' \<longrightarrow> searchType snap = Filtered"
    "has_key (body ?r) ''min_rating'' \<longrightarrow> searchType snap = Filtered"
    by (cases "searchType snap"; simp add: fst_search_call has_key_def)+
  moreover have "trim query \<noteq> [] \<longrightarrow>
      ui_step env st (Submit query) = handleSearch env st (trim query) st"
    by (simp add: ui_step_def handleSubmit_def truthy_string_def)
  ultimately show ?thesis by blast
qed

theorem search_request_shape_witness:
  "trim (lit '' cats '') \<noteq> [] \<and>
   fst (ui_step example_env (initial_state\<lparr>searchType := Hybrid\<rparr>) (Submit (lit '' cats ''))) =
     [\<lparr>url = ''/api/search/hybrid'', http_method = ''POST'',
       headers = [(''Content-Type'', ''application/json'')],
       body = [(''query'', JString (lit ''cats'')), (''num_results'', JNumber 5),
               (''alpha'', JNumber (1 / 2))]\<rparr>]"
proof -
  have t: "trim (lit '' cats '') \<noteq> []" unfolding trim_cats by (simp add: lit_def)
  have "ui_step example_env (initial_state\<lparr>searchType := Hybrid\<rparr>) (Submit (lit '' cats '')) =
        handleSearch example_env (initial_state\<lparr>searchType := Hybrid\<rparr>) (trim (lit '' cats ''))
          (initial_state\<lparr>searchType := Hybrid\<rparr>)"
    using search_request_shape [where env = example_env and query = "lit '' cats ''"
        and st = "initial_state\<lparr>searchType := Hybrid\<rparr>"] t
    by simp
  then show ?thesis
    using t by (simp add: fst_handleSearch fst_search_call trim_cats initial_state_def example_env_def)
qed

section \<open>Changing the search type\<close>

text \<open>
  C3. When a search has been run (\<open>hasSearched\<close> is true and \<open>lastQuery\<close> is not empty),
  selecting a tab sends one more search for \<open>lastQuery\<close>, and that request is the one of
  the search type the handler's render had, before the update: its endpoint is not the
  newly selected type's when the two differ. The state's search type becomes the selected
  one. With no search run before, selecting a tab sends nothing.
\<close>

theorem tab_change_reruns_with_captured_type:
  "(lastQuery snap \<noteq> [] \<and> hasSearched snap \<longrightarrow>
      (\<exists>r. fst (handleSearchTypeChange env snap t st) = [r] \<and>
           r = fst (search_call env snap (lastQuery snap)) \<and>
           url r = API_BASE env @ mode_endpoint (searchType snap) \<and>
           map_of (body r) ''query'' = Some (JString (lastQuery snap)) \<and>
           (t \<noteq> searchType snap \<longrightarrow> url r \<noteq> API_BASE env @ mode_endpoint t)) \<and>
      searchType (snd (handleSearchTypeChange env snap t st)) = t) \<and>
   (\<not> (lastQuery snap \<noteq> [] \<and> hasSearched snap) \<longrightarrow>
      handleSearchTypeChange env snap t st = ([], st\<lparr>searchType := t\<rparr>))"
proof -
  let ?r = "fst (search_call env snap (lastQuery snap))"
  have u: "url ?r = API_BASE env @ mode_endpoint (searchType snap)"
    by (simp add: fst_search_call)
  have q: "map_of (body ?r) ''query'' = Some (JString (lastQuery snap))"
    by (cases "searchType snap"; simp add: fst_search_call)
  have n: "t \<noteq> searchType snap \<longrightarrow> url ?r \<noteq> API_BASE env @ mode_endpoint t"
    using mode_endpoint_inj [of "searchType snap" t] by (auto simp: u)
  have s: "searchType (snd (handleSearch env snap q' (st\<lparr>searchType := t\<rparr>))) = t" for q'
    by (simp add: handleSearch_keeps_type)
  show ?thesis
    using u q n s [of "lastQuery snap"]
    by (simp add: handleSearchTypeChange_def Let_def truthy_string_def fst_handleSearch)
qed

theorem tab_change_reruns_with_captured_type_witness:
  "lastQuery (initial_state\<lparr>hasSearched := True, lastQuery := lit ''cats''\<rparr>) \<noteq> [] \<and>
   hasSearched (initial_state\<lparr>hasSearched := True, lastQuery := lit ''cats''\<rparr>) \<and>
   (\<exists>r. fst (handleSearchTypeChange example_env
              (initial_state\<lparr>hasSearched := True, lastQuery := lit ''cats''\<rparr>) Hybrid
              (initial_state\<lparr>hasSearched := True, lastQuery := lit ''cats''\<rparr>)) = [r] \<and>
        url r = ''/api/search/vector'' \<and> url r \<noteq> ''/api/search/hybrid'') \<and>
   handleSearchTypeChange example_env initial_state Hybrid initial_state =
     ([], initial_state\<lparr>searchType := Hybrid\<rparr>)"
  using tab_change_reruns_with_captured_type
      [of "initial_state\<lparr>hasSearched := True, lastQuery := lit ''cats''\<rparr>" example_env Hybrid
          "initial_state\<lparr>hasSearched := True, lastQuery := lit ''cats''\<rparr>"]
    tab_change_reruns_with_captured_type [of initial_state example_env Hybrid initial_state]
  by (simp add: initial_state_def example_env_def lit_def)

section \<open>A failed chat request\<close>

text \<open>
  C4. When a message is sent (the text is not blank and no send is in flight) and the
  request is rejected or comes back with a status that is not OK, exactly one request
  has been sent, the transcript gains the user's message followed by a single assistant
  message with the text \<open>Sorry, I encountered an error. Please try again.\<close>, and the
  loading flag ends false.
\<close>

theorem chat_failure_appends_error:
  assumes "trim text \<noteq> []" and "\<not> chat_state.isLoading snap"
    and "(\<exists>e. chat_env.fetch env (chat_request text) = Rejects e) \<or>
         (\<exists>status parsed. chat_env.fetch env (chat_request text) = Responds False status parsed)"
  shows "sendMessage env snap text st =
           ([chat_request text],
            st\<lparr>messages := messages st @ [userMessage env text, errorMessage env], input := [],
               chat_state.isLoading := False\<rparr>) \<and>
         role (errorMessage env) = Assistant \<and>
         HelpChatMessage.content (errorMessage env) =
           lit ''Sorry, I encountered an error. Please try again.'' \<and>
         role (userMessage env text) = User \<and>
         HelpChatMessage.content (userMessage env text) = text"
  using assms
  by (auto simp: sendMessage_def truthy_string_def Let_def errorMessage_def userMessage_def)

theorem chat_failure_appends_error_witness:
  "trim (lit ''hi'') \<noteq> [] \<and> \<not> chat_state.isLoading example_chat_state \<and>
   chat_env.fetch example_chat_env (chat_request (lit ''hi'')) = Responds False 500 (Inl NonError) \<and>
   sendMessage example_chat_env example_chat_state (lit ''hi'') example_chat_state =
     ([chat_request (lit ''hi'')],
      \<lparr>messages = [userMessage example_chat_env (lit ''hi''), errorMessage example_chat_env],
       input = [], isLoading = False\<rparr>)"
proof -
  have a: "trim (lit ''hi'') \<noteq> []" unfolding trim_hi by (simp add: lit_def)
  have b: "\<not> chat_state.isLoading example_chat_state" by (simp add: example_chat_state_def)
  have c: "chat_env.fetch example_chat_env (chat_request (lit ''hi'')) = Responds False 500 (Inl NonError)"
    by (simp add: example_chat_env_def)
  from c have d: "(\<exists>e. chat_env.fetch example_chat_env (chat_request (lit ''hi'')) = Rejects e) \<or>
         (\<exists>status parsed. chat_env.fetch example_chat_env (chat_request (lit ''hi'')) =
            Responds False status parsed)"
    by simp
  show ?thesis
    using chat_failure_appends_error [OF a b d, of example_chat_state] a b c
    by (simp add: example_chat_state_def)
qed

section \<open>Facts about double rounding\<close>

text \<open>The largest double, written out, for evaluation.\<close>

lemma max_double_numeral:
  "max_double =
     179769313486231570814527423731704356798070567525844996598917476803157260780028538760589558632766878171540458953514382464234321326889464182768467546703537516986049910576551282076245490090389328944075868508455133942304583236903222948165808559332123348274797826204144723168738177180919299881250404026184124858368"
  by (simp add: max_double_def)

declare max_double_numeral [code]

lemma bit_length_bounds:
  "0 < p \<Longrightarrow> 1 \<le> bit_length p \<and> 2 ^ nat (bit_length p - 1) \<le> p \<and> p < 2 ^ nat (bit_length p)"
proof (induction p rule: bit_length.induct)
  case (1 p)
  have b: "bit_length p = 1 + bit_length (p div 2)" using 1(2) by (simp add: bit_length.simps [of p])
  show ?case
  proof (cases "p div 2 = 0")
    case True
    with 1(2) have "p = 1" by presburger
    then show ?thesis by (simp add: bit_length.simps [of 1] bit_length.simps [of 0])
  next
    case False
    then have pos: "0 < p div 2" using 1(2) by presburger
    with 1 have ih: "1 \<le> bit_length (p div 2)"
      "2 ^ nat (bit_length (p div 2) - 1) \<le> p div 2" "p div 2 < 2 ^ nat (bit_length (p div 2))"
      by auto
    have e: "nat (bit_length (p div 2)) = Suc (nat (bit_length (p div 2) - 1))" using ih(1) by simp
    have "(2::int) ^ nat (bit_length p - 1) = 2 * 2 ^ nat (bit_length (p div 2) - 1)"
      by (simp add: b e)
    also have "\<dots> \<le> 2 * (p div 2)" using ih(2) by simp
    also have "\<dots> \<le> p" by presburger
    finally have lo: "2 ^ nat (bit_length p - 1) \<le> p" .
    have n: "nat (bit_length p) = Suc (nat (bit_length (p div 2)))" using ih(1) by (simp add: b)
    have "p < 2 * (p div 2 + 1)" by presburger
    also have "\<dots> \<le> 2 * 2 ^ nat (bit_length (p div 2))" using ih(3) by simp
    finally have "p < 2 ^ nat (bit_length p)" by (simp add: n)
    with lo ih(1) b show ?thesis by simp
  qed
qed

lemma round_even_bounds: "\<lfloor>q\<rfloor> \<le> round_even q \<and> round_even q \<le> \<lfloor>q\<rfloor> + 1"
  by (simp add: round_even_def Let_def)

lemma round_even_error: "\<bar>of_int (round_even q) - q\<bar> \<le> 1 / 2"
proof -
  have "of_int \<lfloor>q\<rfloor> \<le> q" "q < of_int \<lfloor>q\<rfloor> + 1" by linarith+
  then show ?thesis by (auto simp: round_even_def Let_def abs_le_iff)
qed

lemma round_even_of_int: "round_even (of_int n) = n"
  by (simp add: round_even_def)

lemma round_even_mono: "q \<le> q' \<Longrightarrow> round_even q \<le> round_even q'"
proof -
  assume le: "q \<le> q'"
  then have f: "\<lfloor>q\<rfloor> \<le> \<lfloor>q'\<rfloor>" by (rule floor_mono)
  show ?thesis
  proof (cases "\<lfloor>q\<rfloor> = \<lfloor>q'\<rfloor>")
    case True
    with le show ?thesis by (auto simp: round_even_def Let_def)
  next
    case False
    with f have "\<lfloor>q\<rfloor> + 1 \<le> \<lfloor>q'\<rfloor>" by simp
    with round_even_bounds [of q] round_even_bounds [of q'] show ?thesis by linarith
  qed
qed

lemma round_even_minus: "round_even (- q) = - round_even q"
proof (cases "q = of_int \<lfloor>q\<rfloor>")
  case True
  then obtain n where "q = of_int n" ..
  then have "round_even (- q) = round_even (of_int (- n))" by simp
  also have "\<dots> = - n" by (rule round_even_of_int)
  finally show ?thesis using \<open>q = of_int n\<close> by (simp add: round_even_of_int)
next
  case False
  then have c: "\<lceil>q\<rceil> = \<lfloor>q\<rfloor> + 1" by (metis ceiling_altdef)
  have fl: "\<lfloor>- q\<rfloor> = - \<lfloor>q\<rfloor> - 1" using c by (simp add: floor_minus)
  have r: "- q - of_int \<lfloor>- q\<rfloor> = 1 - (q - of_int \<lfloor>q\<rfloor>)" by (simp add: fl)
  show ?thesis
    unfolding round_even_def Let_def r unfolding fl
    by auto
qed

lemma binary_exponent_bounds:
  assumes "x \<noteq> 0"
  shows "2 powi binary_exponent x \<le> \<bar>x\<bar> \<and> \<bar>x\<bar> < 2 powi (binary_exponent x + 1)"
proof -
  obtain p q where pq: "quotient_of \<bar>x\<bar> = (p, q)" by (cases "quotient_of \<bar>x\<bar>")
  then have q: "0 < q" by (rule quotient_of_denom_pos)
  have x: "\<bar>x\<bar> = of_int p / of_int q" using pq by (rule quotient_of_div)
  have "0 < \<bar>x\<bar>" using assms by simp
  then have p: "0 < p" using q x by (simp add: zero_less_divide_iff)
  let ?bp = "bit_length p" and ?bq = "bit_length q"
  let ?c = "?bp - ?bq"
  from bit_length_bounds [OF p]
  have bp: "1 \<le> ?bp" "2 ^ nat (?bp - 1) \<le> p" "p < 2 ^ nat ?bp" by simp_all
  from bit_length_bounds [OF q]
  have bq: "1 \<le> ?bq" "2 ^ nat (?bq - 1) \<le> q" "q < 2 ^ nat ?bq" by simp_all
  have P: "(2::rat) powi (?bp - 1) \<le> of_int p" "(of_int p :: rat) < 2 powi ?bp"
  proof -
    have "(of_int (2 ^ nat (?bp - 1)) :: rat) \<le> of_int p" using bp(2) by (simp only: of_int_le_iff)
    then show "(2::rat) powi (?bp - 1) \<le> of_int p" using bp(1) by (simp add: power_int_def)
    have "(of_int p :: rat) < of_int (2 ^ nat ?bp)" using bp(3) by (simp only: of_int_less_iff)
    then show "(of_int p :: rat) < 2 powi ?bp" using bp(1) by (simp add: power_int_def)
  qed
  have Q: "(2::rat) powi (?bq - 1) \<le> of_int q" "(of_int q :: rat) < 2 powi ?bq"
  proof -
    have "(of_int (2 ^ nat (?bq - 1)) :: rat) \<le> of_int q" using bq(2) by (simp only: of_int_le_iff)
    then show "(2::rat) powi (?bq - 1) \<le> of_int q" using bq(1) by (simp add: power_int_def)
    have "(of_int q :: rat) < of_int (2 ^ nat ?bq)" using bq(3) by (simp only: of_int_less_iff)
    then show "(of_int q :: rat) < 2 powi ?bq" using bq(1) by (simp add: power_int_def)
  qed
  have qpos: "(0::rat) < of_int q" using q by simp
  have ppos: "(0::rat) < of_int p" using p by simp
  have up: "\<bar>x\<bar> < 2 powi (?c + 1)"
  proof -
    have "of_int p / of_int q < (2::rat) powi ?bp / of_int q"
      using P(2) qpos by (simp add: divide_strict_right_mono)
    also have "\<dots> \<le> 2 powi ?bp / 2 powi (?bq - 1)"
      using Q(1) by (intro frac_le) simp_all
    also have "\<dots> = 2 powi (?bp - (?bq - 1))"
      by (rule power_int_diff [symmetric]) simp
    also have "?bp - (?bq - 1) = ?c + 1" by simp
    finally show ?thesis by (simp add: x)
  qed
  have lo: "2 powi (?c - 1) \<le> \<bar>x\<bar>"
  proof -
    have c1: "?c - 1 = (?bp - 1) - ?bq" by simp
    have "(2::rat) powi ((?bp - 1) - ?bq) = 2 powi (?bp - 1) / 2 powi ?bq"
      by (rule power_int_diff) simp
    then have "2 powi (?c - 1) = (2::rat) powi (?bp - 1) / 2 powi ?bq"
      unfolding c1 .
    also have "\<dots> \<le> of_int p / 2 powi ?bq" using P(1) by (simp add: divide_right_mono)
    also have "\<dots> \<le> of_int p / of_int q"
      using Q(2) qpos ppos by (intro frac_le) simp_all
    finally show ?thesis by (simp add: x)
  qed
  have e: "binary_exponent x = (if 2 powi ?c \<le> \<bar>x\<bar> then ?c else ?c - 1)"
    by (simp add: binary_exponent_def pq Let_def)
  show ?thesis
  proof (cases "2 powi ?c \<le> \<bar>x\<bar>")
    case True
    with e up show ?thesis by simp
  next
    case False
    with e lo show ?thesis by simp
  qed
qed

lemma ulp_pos: "0 < ulp x"
  by (simp add: ulp_def)

lemma binary_exponent_minus: "binary_exponent (- x) = binary_exponent x"
  by (simp add: binary_exponent_def)

lemma ulp_minus: "ulp (- x) = ulp x"
  by (simp add: ulp_def binary_exponent_minus)

lemma nearest_double_minus: "nearest_double (- x) = - nearest_double x"
  by (simp add: nearest_double_def ulp_minus round_even_minus)

lemma grid_mono:
  assumes "0 < s" and "x \<le> y"
  shows "of_int (round_even (x / s)) * s \<le> of_int (round_even (y / s)) * s"
proof -
  have "x / s \<le> y / s" using assms by (simp add: divide_right_mono)
  then have "round_even (x / s) \<le> round_even (y / s)" by (rule round_even_mono)
  then have "(of_int (round_even (x / s)) :: rat) \<le> of_int (round_even (y / s))" by simp
  then show ?thesis using assms(1) by (simp add: mult_right_mono)
qed

lemma grid_fix:
  assumes "0 < s"
  shows "of_int (round_even (of_int n * s / s)) * s = of_int n * s"
  using assms by (simp add: round_even_of_int)

lemma grid_error:
  assumes "0 < s"
  shows "\<bar>of_int (round_even (x / s)) * s - x\<bar> \<le> s / 2"
proof -
  have "of_int (round_even (x / s)) * s - x = (of_int (round_even (x / s)) - x / s) * s"
    using assms by (simp add: field_simps)
  then have "\<bar>of_int (round_even (x / s)) * s - x\<bar> = \<bar>of_int (round_even (x / s)) - x / s\<bar> * s"
    using assms by (simp add: abs_mult)
  also have "\<dots> \<le> 1 / 2 * s"
    using round_even_error [of "x / s"] assms by (intro mult_right_mono) simp_all
  finally show ?thesis by simp
qed

lemma binary_exponent_mono:
  assumes "0 < x" and "x \<le> y"
  shows "binary_exponent x \<le> binary_exponent y"
proof (rule ccontr)
  assume "\<not> binary_exponent x \<le> binary_exponent y"
  then have "binary_exponent y + 1 \<le> binary_exponent x" by simp
  then have "(2::rat) powi (binary_exponent y + 1) \<le> 2 powi binary_exponent x"
    by (intro power_int_increasing) simp_all
  moreover have "2 powi binary_exponent x \<le> x"
    using binary_exponent_bounds [of x] assms by simp
  moreover have "y < 2 powi (binary_exponent y + 1)"
    using binary_exponent_bounds [of y] assms by simp
  ultimately show False using assms by linarith
qed

lemma nearest_double_nonneg: "0 \<le> x \<Longrightarrow> 0 \<le> nearest_double x"
proof -
  assume x: "0 \<le> x"
  have "0 \<le> x / ulp x" using x ulp_pos [of x] by simp
  then have "round_even 0 \<le> round_even (x / ulp x)" by (rule round_even_mono)
  then have "0 \<le> round_even (x / ulp x)" using round_even_of_int [of 0] by simp
  then show ?thesis using ulp_pos [of x] by (simp add: nearest_double_def)
qed

lemma nearest_double_mono_pos:
  assumes x: "0 < x" and le: "x \<le> y"
  shows "nearest_double x \<le> nearest_double y"
proof -
  let ?ex = "max (binary_exponent x) (- 1022)" and ?ey = "max (binary_exponent y) (- 1022)"
  have y: "0 < y" using x le by simp
  have nx: "nearest_double x = of_int (round_even (x / ulp x)) * ulp x"
    and ny: "nearest_double y = of_int (round_even (y / ulp y)) * ulp y"
    using x y by (simp_all add: nearest_double_def)
  have e: "binary_exponent x \<le> binary_exponent y" using x le by (rule binary_exponent_mono)
  show ?thesis
  proof (cases "?ex = ?ey")
    case True
    then have "ulp x = ulp y" by (simp add: ulp_def)
    then show ?thesis using grid_mono [OF ulp_pos [of y] le] by (simp add: nx ny)
  next
    case False
    with e have lt: "?ex < binary_exponent y" and ey: "?ey = binary_exponent y" by auto
    let ?G = "(2::rat) powi binary_exponent y"
    have xG: "x \<le> ?G"
    proof -
      have "x < 2 powi (binary_exponent x + 1)" using binary_exponent_bounds [of x] x by simp
      also have "\<dots> \<le> ?G" using lt by (intro power_int_increasing) simp_all
      finally show ?thesis by simp
    qed
    have Gy: "?G \<le> y" using binary_exponent_bounds [of y] y by simp
    have Gx: "?G = of_int (2 ^ nat (binary_exponent y - ?ex + 52)) * ulp x"
    proof -
      have "(2::rat) powi (binary_exponent y - ?ex + 52) * 2 powi (?ex - 52) = 2 powi binary_exponent y"
        by (simp flip: power_int_add)
      moreover have "(2::rat) powi (binary_exponent y - ?ex + 52) = 2 ^ nat (binary_exponent y - ?ex + 52)"
        using lt by (intro power_int_nonneg_exp) simp
      ultimately show ?thesis by (simp add: ulp_def)
    qed
    have Gyy: "?G = of_int (2 ^ 52) * ulp y"
    proof -
      have "(2::rat) ^ 52 * 2 powi (binary_exponent y - 52) = 2 powi binary_exponent y"
        by (simp add: power_int_diff)
      then show ?thesis by (simp add: ulp_def ey)
    qed
    have "nearest_double x \<le> of_int (round_even (?G / ulp x)) * ulp x"
      unfolding nx by (rule grid_mono [OF ulp_pos xG])
    also have "\<dots> = ?G"
      using grid_fix [OF ulp_pos [of x], of "2 ^ nat (binary_exponent y - ?ex + 52)"]
      by (simp only: Gx [symmetric])
    also have "\<dots> = of_int (round_even (?G / ulp y)) * ulp y"
      using grid_fix [OF ulp_pos [of y], of "2 ^ 52"]
      by (simp only: Gyy [symmetric])
    also have "\<dots> \<le> nearest_double y"
      unfolding ny by (rule grid_mono [OF ulp_pos Gy])
    finally show ?thesis .
  qed
qed

lemma nearest_double_mono: "x \<le> y \<Longrightarrow> nearest_double x \<le> nearest_double y"
proof -
  assume le: "x \<le> y"
  consider "0 < x" | "x \<le> 0" "0 \<le> y" | "y < 0" by linarith
  then show ?thesis
  proof cases
    case 1
    then show ?thesis using le by (rule nearest_double_mono_pos)
  next
    case 2
    have "0 \<le> nearest_double (- x)" using 2(1) by (intro nearest_double_nonneg) simp
    then have "nearest_double x \<le> 0" by (simp add: nearest_double_minus)
    also have "0 \<le> nearest_double y" using 2(2) by (rule nearest_double_nonneg)
    finally show ?thesis .
  next
    case 3
    then have "0 < - y" "- y \<le> - x" using le by simp_all
    then have "nearest_double (- y) \<le> nearest_double (- x)" by (rule nearest_double_mono_pos)
    then show ?thesis by (simp add: nearest_double_minus)
  qed
qed

lemma ulp_bound:
  assumes x: "x \<noteq> 0"
  shows "ulp x \<le> \<bar>x\<bar> / 2 ^ 52 + 1 / 2 ^ 1074"
proof (cases "binary_exponent x \<le> - 1022")
  case True
  then have "ulp x = 2 powi (- 1074)" by (simp add: ulp_def max_def)
  also have "\<dots> = 1 / 2 ^ 1074" by (simp add: power_int_minus_divide)
  finally show ?thesis by simp
next
  case False
  then have "ulp x = 2 powi (binary_exponent x - 52)" by (simp add: ulp_def max_def)
  also have "\<dots> = 2 powi binary_exponent x / 2 ^ 52" by (simp add: power_int_diff)
  also have "\<dots> \<le> \<bar>x\<bar> / 2 ^ 52"
    using binary_exponent_bounds [OF x] by (simp add: divide_right_mono)
  finally show ?thesis by simp
qed

lemma nearest_double_error: "\<bar>nearest_double x - x\<bar> \<le> \<bar>x\<bar> / 2 ^ 53 + 1 / 2 ^ 1075"
proof (cases "x = 0")
  case True
  then show ?thesis by (simp add: nearest_double_def)
next
  case False
  then have "\<bar>nearest_double x - x\<bar> \<le> ulp x / 2"
    using grid_error [OF ulp_pos, of x x] by (simp add: nearest_double_def)
  also have "\<dots> \<le> (\<bar>x\<bar> / 2 ^ 52 + 1 / 2 ^ 1074) / 2"
    using ulp_bound [OF False] by simp
  also have "\<dots> = \<bar>x\<bar> / 2 ^ 53 + 1 / 2 ^ 1075" by simp
  finally show ?thesis .
qed

lemma round_double_mono: "x \<le> y \<Longrightarrow> double_le (round_double x) (round_double y)"
  using nearest_double_mono [of x y] by (auto simp: round_double_def Let_def)

lemma round_double_between:
  "double_le NegInfinity (round_double x)" "double_le (round_double x) PosInfinity"
  by (simp_all add: round_double_def Let_def)

lemma double_mul_100_mono:
  "double_le u v \<Longrightarrow> double_le (double_mul u 100) (double_mul v 100)"
  by (cases u; cases v) (simp_all add: round_double_mono round_double_between)

lemma percent_antimono:
  "distance_threshold_or_0 s1 \<le> distance_threshold_or_0 s2 \<Longrightarrow>
   double_le (similarity_threshold_percent s2) (similarity_threshold_percent s1)"
  unfolding similarity_threshold_percent_def double_sub_def
  by (intro double_mul_100_mono round_double_mono) simp

lemma max_double_large: "10 ^ 22 \<le> max_double"
  by (simp add: max_double_def)

lemma abs_chain_100: "\<bar>p - x * 100\<bar> \<le> \<bar>p - a * 100\<bar> + \<bar>a - x\<bar> * (100::rat)"
proof -
  have "p - x * 100 = (p - a * 100) + (a - x) * 100" by (simp add: algebra_simps)
  also have "\<bar>\<dots>\<bar> \<le> \<bar>p - a * 100\<bar> + \<bar>(a - x) * 100\<bar>" by (rule abs_triangle_ineq)
  also have "\<bar>(a - x) * 100\<bar> = \<bar>a - x\<bar> * 100" by (simp only: abs_mult abs_numeral)
  finally show ?thesis .
qed

lemma double_error_arith:
  fixes X A P EA EP E :: rat
  assumes "X \<le> 10 ^ 18 + 1" and "0 \<le> X"
    and "EA \<le> X / 2 ^ 53 + 1 / 2 ^ 60" and "A \<le> X + EA"
    and "EP \<le> A * 100 / 2 ^ 53 + 1 / 2 ^ 60" and "P \<le> A * 100 + EP"
    and "E \<le> EP + EA * 100"
  shows "A \<le> 10 ^ 19" and "P < 10 ^ 21" and "E \<le> (X + 1) / 2 ^ 45"
  using assms by simp_all

lemma percent_finite:
  assumes d: "\<bar>distance_threshold_or_0 stats\<bar> \<le> 10 ^ 18"
  shows "\<exists>p. similarity_threshold_percent stats = Finite p \<and> \<bar>p\<bar> < 10 ^ 21 \<and>
             \<bar>p - (1 - distance_threshold_or_0 stats) * 100\<bar> \<le>
               (\<bar>1 - distance_threshold_or_0 stats\<bar> + 1) / 2 ^ 45"
proof -
  let ?x = "1 - distance_threshold_or_0 stats"
  let ?a = "nearest_double ?x"
  let ?p = "nearest_double (?a * 100)"
  have tiny: "(1::rat) / 2 ^ 1075 \<le> 1 / 2 ^ 60"
    by (intro divide_left_mono power_increasing) simp_all
  have x: "\<bar>?x\<bar> \<le> 10 ^ 18 + 1" using d by simp
  have ea: "\<bar>?a - ?x\<bar> \<le> \<bar>?x\<bar> / 2 ^ 53 + 1 / 2 ^ 60"
    using nearest_double_error [of ?x] tiny by linarith
  have ep: "\<bar>?p - ?a * 100\<bar> \<le> \<bar>?a\<bar> * 100 / 2 ^ 53 + 1 / 2 ^ 60"
    using nearest_double_error [of "?a * 100"] tiny by (simp add: abs_mult)
  have ta: "\<bar>?a\<bar> \<le> \<bar>?x\<bar> + \<bar>?a - ?x\<bar>" by linarith
  have tp: "\<bar>?p\<bar> \<le> \<bar>?a\<bar> * 100 + \<bar>?p - ?a * 100\<bar>"
    using abs_triangle_ineq [of "?a * 100" "?p - ?a * 100"] by (simp add: abs_mult)
  have te: "\<bar>?p - ?x * 100\<bar> \<le> \<bar>?p - ?a * 100\<bar> + \<bar>?a - ?x\<bar> * 100"
    by (rule abs_chain_100)
  note B = double_error_arith [OF x abs_ge_zero ea ta ep tp te]
  have fa: "round_double ?x = Finite ?a"
    using B(1) max_double_large by (simp add: round_double_def Let_def abs_le_iff)
  have fp: "round_double (?a * 100) = Finite ?p"
    using B(2) max_double_large by (simp add: round_double_def Let_def abs_less_iff)
  have "similarity_threshold_percent stats = Finite ?p"
    by (simp add: similarity_threshold_percent_def double_sub_def fa fp)
  with B(2,3) show ?thesis by blast
qed
text \<open>Reading back what \<open>toFixed(0)\<close> prints.\<close>

lemma show_nat_digits:
  "show_nat n \<noteq> [] \<and> list_all (\<lambda>c. 48 \<le> c \<and> c \<le> 57) (show_nat n) \<and>
   foldl (\<lambda>a c. 10 * a + (c - 48)) 0 (show_nat n) = n"
proof (induction n rule: show_nat.induct)
  case (1 n)
  show ?case
  proof (cases "n < 10")
    case True
    then show ?thesis by (simp add: show_nat.simps [of n])
  next
    case False
    with 1 have ih: "list_all (\<lambda>c. 48 \<le> c \<and> c \<le> 57) (show_nat (n div 10))"
      "foldl (\<lambda>a c. 10 * a + (c - 48)) 0 (show_nat (n div 10)) = n div 10"
      by simp_all
    have s: "show_nat n = show_nat (n div 10) @ [48 + n mod 10]"
      using False by (simp add: show_nat.simps [of n])
    show ?thesis unfolding s using ih by simp
  qed
qed

lemma read_nat_show: "read_nat (show_nat n) = Some n"
  using show_nat_digits [of n] by (simp add: read_nat_def)

lemma read_int_show: "read_int (show_nat n) = Some (int n)"
proof -
  obtain c ds where s: "show_nat n = c # ds"
    using show_nat_digits [of n] by (cases "show_nat n") auto
  with show_nat_digits [of n] have "c \<noteq> 45" by auto
  then show ?thesis using read_nat_show [of n] by (simp add: read_int_def s)
qed

lemma read_int_minus_show: "read_int (45 # show_nat n) = Some (- int n)"
  by (simp add: read_int_def read_nat_show)

lemma toFixed_0: "toFixed x 0 = (if x < 0 then [45] else []) @ show_nat (toFixed_n x 0)"
proof -
  have "1 - length (show_nat (toFixed_n x 0)) = 0"
    using show_nat_digits [of "toFixed_n x 0"] by (cases "show_nat (toFixed_n x 0)") auto
  then show ?thesis by (simp add: toFixed_def Let_def lit_def)
qed

lemma read_percent_toFixed: "read_percent (toFixed x 0 @ lit ''%'') = Some (printed_integer x)"
  by (simp add: read_percent_def toFixed_0 lit_def printed_integer_def read_int_show
      read_int_minus_show)

lemma toFixed_n_floor: "int (toFixed_n x 0) = \<lfloor>\<bar>x\<bar> + 1 / 2\<rfloor>"
proof -
  have "0 \<le> \<lfloor>\<bar>x\<bar> + 1 / 2\<rfloor>" by simp
  then show ?thesis by (simp add: toFixed_n_def)
qed

lemma printed_integer_error: "\<bar>of_int (printed_integer x) - x\<bar> \<le> 1 / 2"
proof -
  define f where "f = \<lfloor>\<bar>x\<bar> + 1 / 2\<rfloor>"
  have b: "of_int f \<le> \<bar>x\<bar> + 1 / 2" "\<bar>x\<bar> + 1 / 2 < of_int f + 1"
    unfolding f_def by linarith+
  have k: "printed_integer x = (if x < 0 then - f else f)"
    by (simp add: printed_integer_def toFixed_n_floor f_def)
  show ?thesis
  proof (cases "x < 0")
    case True
    then have "of_int (printed_integer x) = - (of_int f :: rat)" by (simp add: k)
    with b True show ?thesis by linarith
  next
    case False
    then have "of_int (printed_integer x) = (of_int f :: rat)" by (simp add: k)
    with b False show ?thesis by linarith
  qed
qed

lemma printed_integer_mono: "x \<le> y \<Longrightarrow> printed_integer x \<le> printed_integer y"
proof -
  assume le: "x \<le> y"
  have nn: "0 \<le> \<lfloor>\<bar>z\<bar> + 1 / 2\<rfloor>" for z :: rat by simp
  consider "0 \<le> x" | "x < 0" "0 \<le> y" | "y < 0" by linarith
  then show ?thesis
  proof cases
    case 1
    then have "\<bar>x\<bar> + 1 / 2 \<le> \<bar>y\<bar> + 1 / 2" using le by simp
    then have "\<lfloor>\<bar>x\<bar> + 1 / 2\<rfloor> \<le> \<lfloor>\<bar>y\<bar> + 1 / 2\<rfloor>" by (rule floor_mono)
    moreover have "\<not> x < 0" "\<not> y < 0" using 1 le by simp_all
    ultimately show ?thesis by (simp only: printed_integer_def toFixed_n_floor if_False)
  next
    case 2
    then have "\<not> y < 0" by simp
    then have "printed_integer y = \<lfloor>\<bar>y\<bar> + 1 / 2\<rfloor>"
      by (simp only: printed_integer_def toFixed_n_floor if_False)
    moreover have "printed_integer x = - \<lfloor>\<bar>x\<bar> + 1 / 2\<rfloor>"
      using 2(1) by (simp only: printed_integer_def toFixed_n_floor if_True)
    ultimately show ?thesis using nn [of x] nn [of y] by linarith
  next
    case 3
    then have "\<bar>y\<bar> + 1 / 2 \<le> \<bar>x\<bar> + 1 / 2" using le by simp
    then have "\<lfloor>\<bar>y\<bar> + 1 / 2\<rfloor> \<le> \<lfloor>\<bar>x\<bar> + 1 / 2\<rfloor>" by (rule floor_mono)
    moreover have "x < 0" "y < 0" using 3 le by simp_all
    ultimately show ?thesis by (simp only: printed_integer_def toFixed_n_floor if_True neg_le_iff_le)
  qed
qed

lemma display_finite:
  assumes "similarity_threshold_percent stats = Finite p" and "\<bar>p\<bar> < 10 ^ 21"
  shows "similarity_threshold_display stats =
           Some ((if p < 0 then lit ''-'' else []) @ show_nat (nat \<bar>printed_integer p\<bar>) @ lit ''%'')"
    and "shown_percent stats = Some (printed_integer p)"
proof -
  have d: "similarity_threshold_display stats = Some (toFixed p 0 @ lit ''%'')"
    using assms by (simp add: similarity_threshold_display_def toFixed_double_def)
  have "nat \<bar>printed_integer p\<bar> = toFixed_n p 0" by (simp add: printed_integer_def)
  then show "similarity_threshold_display stats =
           Some ((if p < 0 then lit ''-'' else []) @ show_nat (nat \<bar>printed_integer p\<bar>) @ lit ''%'')"
    by (simp add: d toFixed_0 lit_def)
  show "shown_percent stats = Some (printed_integer p)"
    by (simp add: shown_percent_def d read_percent_toFixed)
qed

lemma display_default:
  "distance_threshold_or_0 stats = 0 \<Longrightarrow> similarity_threshold_display stats = Some (lit ''100%'')"
proof -
  assume z: "distance_threshold_or_0 stats = 0"
  have "map_option (\<lambda>s. s @ lit ''%'') (toFixed_double (double_mul (double_sub 1 0) 100) 0) =
        Some (lit ''100%'')"
    by code_simp
  then show ?thesis by (simp add: similarity_threshold_display_def similarity_threshold_percent_def z)
qed

section \<open>The help center's similarity threshold\<close>

text \<open>
  C5. The statistics panel reports the similarity threshold as \<open>(1 - d) * 100\<close> percent,
  \<open>d\<close> being the distance threshold read, computed in double arithmetic and printed by
  \<open>toFixed(0)\<close> with a percent sign. For a threshold of magnitude up to \<open>10^18\<close> the
  percentage is finite and within \<open>(|1 - d| + 1) / 2^45\<close> of the exact \<open>(1 - d) * 100\<close>, and
  the text shown is the integer nearest to it, with a minus sign when it is negative. The
  report decreases monotonically, in the weak sense (rounding makes it constant on
  intervals): a larger threshold never gives a larger percentage, for any two thresholds,
  and never a larger integer on the panel. The threshold read is the reported one; when
  the cache statistics or the threshold are missing it is 0 and the panel reads
  \<open>100%\<close>.
\<close>

theorem similarity_threshold_reported:
  "(\<bar>distance_threshold_or_0 stats\<bar> \<le> 10 ^ 18 \<longrightarrow>
      (\<exists>p k. similarity_threshold_percent stats = Finite p \<and>
             \<bar>p - (1 - distance_threshold_or_0 stats) * 100\<bar> \<le>
               (\<bar>1 - distance_threshold_or_0 stats\<bar> + 1) / 2 ^ 45 \<and>
             similarity_threshold_display stats =
               Some ((if p < 0 then lit ''-'' else []) @ show_nat (nat \<bar>k\<bar>) @ lit ''%'') \<and>
             shown_percent stats = Some k \<and> \<bar>of_int k - p\<bar> \<le> 1 / 2)) \<and>
   (distance_threshold_or_0 s1 \<le> distance_threshold_or_0 s2 \<longrightarrow>
      double_le (similarity_threshold_percent s2) (similarity_threshold_percent s1)) \<and>
   (distance_threshold_or_0 s1 \<le> distance_threshold_or_0 s2 \<and>
    \<bar>distance_threshold_or_0 s1\<bar> \<le> 10 ^ 18 \<and> \<bar>distance_threshold_or_0 s2\<bar> \<le> 10 ^ 18 \<longrightarrow>
      (\<exists>k1 k2. shown_percent s1 = Some k1 \<and> shown_percent s2 = Some k2 \<and> k2 \<le> k1)) \<and>
   (\<forall>cs d. cache_stats stats = Some cs \<and> distance_threshold cs = Some d \<longrightarrow>
      distance_threshold_or_0 stats = d) \<and>
   (cache_stats stats = None \<or>
    (\<exists>cs. cache_stats stats = Some cs \<and> distance_threshold cs = None) \<longrightarrow>
      distance_threshold_or_0 stats = 0 \<and>
      similarity_threshold_display stats = Some (lit ''100%''))"
proof -
  have a: "\<bar>distance_threshold_or_0 stats\<bar> \<le> 10 ^ 18 \<longrightarrow>
      (\<exists>p k. similarity_threshold_percent stats = Finite p \<and>
             \<bar>p - (1 - distance_threshold_or_0 stats) * 100\<bar> \<le>
               (\<bar>1 - distance_threshold_or_0 stats\<bar> + 1) / 2 ^ 45 \<and>
             similarity_threshold_display stats =
               Some ((if p < 0 then lit ''-'' else []) @ show_nat (nat \<bar>k\<bar>) @ lit ''%'') \<and>
             shown_percent stats = Some k \<and> \<bar>of_int k - p\<bar> \<le> 1 / 2)"
  proof
    assume "\<bar>distance_threshold_or_0 stats\<bar> \<le> 10 ^ 18"
    then obtain p where p: "similarity_threshold_percent stats = Finite p" "\<bar>p\<bar> < 10 ^ 21"
      "\<bar>p - (1 - distance_threshold_or_0 stats) * 100\<bar> \<le>
         (\<bar>1 - distance_threshold_or_0 stats\<bar> + 1) / 2 ^ 45"
      using percent_finite by blast
    from display_finite [OF p(1,2)] p(1,3) printed_integer_error [of p]
    show "\<exists>p k. similarity_threshold_percent stats = Finite p \<and>
             \<bar>p - (1 - distance_threshold_or_0 stats) * 100\<bar> \<le>
               (\<bar>1 - distance_threshold_or_0 stats\<bar> + 1) / 2 ^ 45 \<and>
             similarity_threshold_display stats =
               Some ((if p < 0 then lit ''-'' else []) @ show_nat (nat \<bar>k\<bar>) @ lit ''%'') \<and>
             shown_percent stats = Some k \<and> \<bar>of_int k - p\<bar> \<le> 1 / 2"
      by blast
  qed
  have b: "distance_threshold_or_0 s1 \<le> distance_threshold_or_0 s2 \<longrightarrow>
      double_le (similarity_threshold_percent s2) (similarity_threshold_percent s1)"
    by (simp add: percent_antimono)
  have c: "distance_threshold_or_0 s1 \<le> distance_threshold_or_0 s2 \<and>
    \<bar>distance_threshold_or_0 s1\<bar> \<le> 10 ^ 18 \<and> \<bar>distance_threshold_or_0 s2\<bar> \<le> 10 ^ 18 \<longrightarrow>
      (\<exists>k1 k2. shown_percent s1 = Some k1 \<and> shown_percent s2 = Some k2 \<and> k2 \<le> k1)"
  proof
    assume h: "distance_threshold_or_0 s1 \<le> distance_threshold_or_0 s2 \<and>
      \<bar>distance_threshold_or_0 s1\<bar> \<le> 10 ^ 18 \<and> \<bar>distance_threshold_or_0 s2\<bar> \<le> 10 ^ 18"
    then obtain p1 p2 where p1: "similarity_threshold_percent s1 = Finite p1" "\<bar>p1\<bar> < 10 ^ 21"
      and p2: "similarity_threshold_percent s2 = Finite p2" "\<bar>p2\<bar> < 10 ^ 21"
      using percent_finite [of s1] percent_finite [of s2] by blast
    from h have "double_le (similarity_threshold_percent s2) (similarity_threshold_percent s1)"
      by (simp add: percent_antimono)
    then have "p2 \<le> p1" by (simp add: p1 p2)
    then have "printed_integer p2 \<le> printed_integer p1" by (rule printed_integer_mono)
    with display_finite(2) [OF p1] display_finite(2) [OF p2]
    show "\<exists>k1 k2. shown_percent s1 = Some k1 \<and> shown_percent s2 = Some k2 \<and> k2 \<le> k1"
      by blast
  qed
  have d: "\<forall>cs d. cache_stats stats = Some cs \<and> distance_threshold cs = Some d \<longrightarrow>
      distance_threshold_or_0 stats = d"
    by (simp add: distance_threshold_or_0_def)
  have z: "cache_stats stats = None \<or>
    (\<exists>cs. cache_stats stats = Some cs \<and> distance_threshold cs = None) \<longrightarrow>
      distance_threshold_or_0 stats = 0"
    by (auto simp: distance_threshold_or_0_def)
  have e: "cache_stats stats = None \<or>
    (\<exists>cs. cache_stats stats = Some cs \<and> distance_threshold cs = None) \<longrightarrow>
      distance_threshold_or_0 stats = 0 \<and>
      similarity_threshold_display stats = Some (lit ''100%'')"
    using z display_default [of stats] by blast
  from a b c d e show ?thesis by blast
qed

theorem similarity_threshold_reported_witness:
  "\<bar>distance_threshold_or_0 (example_stats (Some (nearest_double (17 / 40))))\<bar> \<le> 10 ^ 18 \<and>
   \<bar>distance_threshold_or_0 (example_stats (Some (nearest_double (1 / 10))))\<bar> \<le> 10 ^ 18 \<and>
   distance_threshold_or_0 (example_stats (Some (nearest_double (1 / 10)))) \<le>
     distance_threshold_or_0 (example_stats (Some (nearest_double (17 / 40)))) \<and>
   similarity_threshold_display (example_stats (Some (nearest_double (17 / 40)))) = Some (lit ''57%'') \<and>
   similarity_threshold_display (example_stats (Some (nearest_double (1 / 10)))) = Some (lit ''90%'') \<and>
   similarity_threshold_display (example_stats (Some (nearest_double (3 / 2)))) = Some (lit ''-50%'') \<and>
   (\<exists>k1 k2. shown_percent (example_stats (Some (nearest_double (1 / 10)))) = Some k1 \<and>
            shown_percent (example_stats (Some (nearest_double (17 / 40)))) = Some k2 \<and>
            k1 = 90 \<and> k2 = 57 \<and> k2 \<le> k1) \<and>
   distance_threshold_or_0 (example_stats None) = 0 \<and>
   similarity_threshold_display (example_stats None) = Some (lit ''100%'')"
proof -
  let ?s1 = "example_stats (Some (nearest_double (1 / 10)))"
  let ?s2 = "example_stats (Some (nearest_double (17 / 40)))"
  have d1: "distance_threshold_or_0 ?s1 = 3602879701896397 / 36028797018963968"
    by code_simp
  have d2: "distance_threshold_or_0 ?s2 = 7656119366529843 / 18014398509481984"
    by code_simp
  have h1: "\<bar>distance_threshold_or_0 ?s1\<bar> \<le> 10 ^ 18" unfolding d1 by simp
  have h2: "\<bar>distance_threshold_or_0 ?s2\<bar> \<le> 10 ^ 18" unfolding d2 by simp
  have le: "distance_threshold_or_0 ?s1 \<le> distance_threshold_or_0 ?s2" unfolding d1 d2 by simp
  have v1: "shown_percent ?s1 = Some 90" by code_simp
  have v2: "shown_percent ?s2 = Some 57" by code_simp
  have t1: "similarity_threshold_display ?s2 = Some (lit ''57%'')" by code_simp
  have t2: "similarity_threshold_display ?s1 = Some (lit ''90%'')" by code_simp
  have t3: "similarity_threshold_display (example_stats (Some (nearest_double (3 / 2)))) =
      Some (lit ''-50%'')"
    by code_simp
  have b: "\<exists>cs. cache_stats (example_stats None) = Some cs \<and> distance_threshold cs = None"
    by (simp add: example_stats_def)
  note T = similarity_threshold_reported
      [where ?s1.0 = ?s1 and ?s2.0 = ?s2 and stats = "example_stats None"]
  from T le h1 h2 obtain k1 k2 where
    k: "shown_percent ?s1 = Some k1" "shown_percent ?s2 = Some k2" "k2 \<le> k1"
    by blast
  from k v1 v2 have kk: "k1 = 90" "k2 = 57" by simp_all
  from T b have z: "distance_threshold_or_0 (example_stats None) = 0 \<and>
      similarity_threshold_display (example_stats None) = Some (lit ''100%'')"
    by blast
  from h1 h2 le t1 t2 t3 k kk z show ?thesis by blast
qed

section \<open>Scores on the movie card\<close>

text \<open>
  C6. In hybrid mode the card shows the three component scores (vector similarity, text
  score, hybrid score), each as its formatted value or \<open>N/A\<close> when it is missing, and no
  score line. In vector, filtered and range modes the card shows the similarity
  percentage exactly when \<open>similarity\<close> is there; in keyword mode it shows the BM25 score
  exactly when \<open>score\<close> is there.
\<close>

theorem score_display_by_mode:
  "MovieCard movie (type_name Hybrid) =
     [Element ''hybrid-breakdown''
        [Element ''breakdown-item''
           [Element ''span'' [Text (lit ''Vector Similarity:'')],
            Element ''span'' [Text (component_text (vector_similarity movie) 3)]],
         Element ''breakdown-item''
           [Element ''span'' [Text (lit ''Text Score:'')],
            Element ''span'' [Text (component_text (text_score movie) 2)]],
         Element ''breakdown-item''
           [Element ''span'' [Text (lit ''Hybrid Score:'')],
            Element ''span'' [Text (component_text (hybrid_score movie) 3)]]]] \<and>
   (t \<in> {Vector, Filtered, Range} \<longrightarrow>
      MovieCard movie (type_name t) =
        (case MovieResult.similarity movie of
           None \<Rightarrow> []
         | Some s \<Rightarrow> [score_line ''Similarity'' (toFixed (s * 100) 1 @ lit ''%'')])) \<and>
   MovieCard movie (type_name Keyword) =
     (case score movie of
        None \<Rightarrow> []
      | Some sc \<Rightarrow> [score_line ''BM25 Score'' (toFixed sc 2)]) \<and>
   (t \<in> {Vector, Filtered, Range} \<longrightarrow>
      (score_lines (MovieCard movie (type_name t)) \<noteq> [] \<longleftrightarrow>
       MovieResult.similarity movie \<noteq> None)) \<and>
   (score_lines (MovieCard movie (type_name Keyword)) \<noteq> [] \<longleftrightarrow> score movie \<noteq> None)"
  by (auto simp: MovieCard_def getScoreDisplay_def breakdown_item_def component_text_def
      score_line_def score_lines_def split: option.split)

theorem score_display_by_mode_witness:
  "Filtered \<in> {Vector, Filtered, Range} \<and>
   MovieCard example_movie (type_name Filtered) = [score_line ''Similarity'' (lit ''85.7%'')] \<and>
   score_lines (MovieCard example_movie (type_name Filtered)) \<noteq> [] \<and>
   MovieCard example_movie (type_name Keyword) = [] \<and>
   MovieCard example_movie ''hybrid'' =
     [Element ''hybrid-breakdown''
        [Element ''breakdown-item''
           [Element ''span'' [Text (lit ''Vector Similarity:'')], Element ''span'' [Text (lit ''N/A'')]],
         Element ''breakdown-item''
           [Element ''span'' [Text (lit ''Text Score:'')], Element ''span'' [Text (lit ''N/A'')]],
         Element ''breakdown-item''
           [Element ''span'' [Text (lit ''Hybrid Score:'')], Element ''span'' [Text (lit ''N/A'')]]]]"
proof -
  note T = score_display_by_mode [of example_movie Filtered]
  have m: "Filtered \<in> {Vector, Filtered, Range}" by simp
  have sim: "MovieResult.similarity example_movie = Some (857 / 1000)"
    and sc: "score example_movie = None"
    and comps: "vector_similarity example_movie = None" "text_score example_movie = None"
      "hybrid_score example_movie = None"
    by (simp_all add: example_movie_def)
  from T m have "MovieCard example_movie (type_name Filtered) =
      (case MovieResult.similarity example_movie of
         None \<Rightarrow> []
       | Some s \<Rightarrow> [score_line ''Similarity'' (toFixed (s * 100) 1 @ lit ''%'')])"
    by blast
  then have a: "MovieCard example_movie (type_name Filtered) = [score_line ''Similarity'' (lit ''85.7%'')]"
    unfolding sim option.case toFixed_example .
  have ne: "MovieResult.similarity example_movie \<noteq> None" by (simp add: sim)
  from T m ne have b: "score_lines (MovieCard example_movie (type_name Filtered)) \<noteq> []"
    by blast
  from T have "MovieCard example_movie (type_name Keyword) =
      (case score example_movie of None \<Rightarrow> [] | Some sc \<Rightarrow> [score_line ''BM25 Score'' (toFixed sc 2)])"
    by blast
  then have c: "MovieCard example_movie (type_name Keyword) = []"
    unfolding sc option.case .
  from T have d: "MovieCard example_movie ''hybrid'' =
     [Element ''hybrid-breakdown''
        [Element ''breakdown-item''
           [Element ''span'' [Text (lit ''Vector Similarity:'')], Element ''span'' [Text (lit ''N/A'')]],
         Element ''breakdown-item''
           [Element ''span'' [Text (lit ''Text Score:'')], Element ''span'' [Text (lit ''N/A'')]],
         Element ''breakdown-item''
           [Element ''span'' [Text (lit ''Hybrid Score:'')], Element ''span'' [Text (lit ''N/A'')]]]]"
    by (simp add: comps component_text_def)
  from m a b c d show ?thesis by blast
qed

section \<open>Empty queries\<close>

text \<open>
  C7. The search form calls the search only with the trimmed query, and only when that is
  not empty; submitting a blank query sends nothing and changes nothing. Whatever the
  event and the state of the page, every search request carries a query that is not
  empty. \<open>sendMessage\<close> with an empty or blank text sends nothing and changes nothing,
  and every chat request carries a message that is not empty.
\<close>

theorem empty_query_never_sent:
  "handleSubmit query = (if trim query = [] then None else Some (trim query)) \<and>
   (trim query = [] \<longrightarrow> ui_step env st (Submit query) = ([], st)) \<and>
   (\<forall>r \<in> set (fst (ui_step env st ev)).
      \<exists>q. map_of (body r) ''query'' = Some (JString q) \<and> q \<noteq> []) \<and>
   (trim text = [] \<longrightarrow> sendMessage cenv csnap text cst = ([], cst)) \<and>
   (\<forall>r \<in> set (fst (sendMessage cenv csnap text cst)).
      \<exists>m. map_of (body r) ''message'' = Some (JString m) \<and> m \<noteq> [])"
proof -
  have a: "handleSubmit query = (if trim query = [] then None else Some (trim query))"
    by (simp add: handleSubmit_def truthy_string_def)
  have b: "trim query = [] \<longrightarrow> ui_step env st (Submit query) = ([], st)"
    by (simp add: ui_step_def a)
  have c: "\<forall>r \<in> set (fst (ui_step env st ev)).
      \<exists>q. map_of (body r) ''query'' = Some (JString q) \<and> q \<noteq> []"
  proof (cases ev)
    case (Submit q)
    then show ?thesis
      using search_call_query_nonempty [of "trim q" env st]
      by (simp add: ui_step_def handleSubmit_def truthy_string_def fst_handleSearch)
  next
    case (TabClick t)
    then show ?thesis
      using search_call_query_nonempty [of "lastQuery st" env st]
      by (simp add: ui_step_def handleSearchTypeChange_def truthy_string_def fst_handleSearch Let_def)
  next
    case (SliderChange c v)
    then show ?thesis by (simp add: ui_step_def)
  qed (simp_all add: ui_step_def)
  have d: "trim text = [] \<longrightarrow> sendMessage cenv csnap text cst = ([], cst)"
    by (simp add: sendMessage_def truthy_string_def)
  have e: "\<forall>r \<in> set (fst (sendMessage cenv csnap text cst)).
      \<exists>m. map_of (body r) ''message'' = Some (JString m) \<and> m \<noteq> []"
    using trim_nonempty [of "text"]
    by (simp add: sendMessage_def truthy_string_def Let_def chat_request_def)
  show ?thesis using a b c d e by blast
qed

theorem empty_query_never_sent_witness:
  "trim (lit ''   '') = [] \<and>
   handleSubmit (lit ''   '') = None \<and>
   ui_step example_env initial_state (Submit (lit ''   '')) = ([], initial_state) \<and>
   sendMessage example_chat_env example_chat_state (lit ''   '') example_chat_state =
     ([], example_chat_state) \<and>
   chat_request (lit ''hi'') \<in>
     set (fst (sendMessage example_chat_env example_chat_state (lit ''hi'') example_chat_state)) \<and>
   (\<exists>m. map_of (body (chat_request (lit ''hi''))) ''message'' = Some (JString m) \<and> m \<noteq> [])"
proof -
  note T = empty_query_never_sent
      [where query = "lit ''   ''" and env = example_env and st = initial_state
         and ?text = "lit ''   ''" and cenv = example_chat_env and csnap = example_chat_state
         and cst = example_chat_state]
  note U = empty_query_never_sent
      [where ?text = "lit ''hi''" and cenv = example_chat_env and csnap = example_chat_state
         and cst = example_chat_state]
  have m: "chat_request (lit ''hi'') \<in>
     set (fst (sendMessage example_chat_env example_chat_state (lit ''hi'') example_chat_state))"
    by (simp add: sendMessage_def truthy_string_def trim_hi Let_def example_chat_state_def)
       (simp add: lit_def)
  from U m have "\<exists>m. map_of (body (chat_request (lit ''hi''))) ''message'' = Some (JString m) \<and> m \<noteq> []"
    by blast
  with T m show ?thesis by (simp add: trim_blank)
qed

section \<open>Option ranges\<close>

text \<open>
  C8. The options start at 5 results, alpha 0.5 and distance threshold 0.5. In every
  state the page reaches through its controls (the sliders reporting values of their
  ranges), the number of results is between 1 and 20, alpha between 0 and 1, the distance
  threshold between 0.1 and 1 and the minimum rating between 1 and 10; and every search
  request sent from such a state has a \<open>num_results\<close> between 1 and 20 (so never 0 or
  less), and an \<open>alpha\<close>, a \<open>distance_threshold\<close> and a \<open>min_rating\<close>, when it has one,
  within those ranges.
\<close>

theorem ui_requests_within_option_ranges:
  "numResults initial_state = 5 \<and> alpha initial_state = 1 / 2 \<and>
   distanceThreshold initial_state = 1 / 2 \<and>
   (reachable st \<longrightarrow>
      (1 \<le> numResults st \<and> numResults st \<le> 20 \<and> 0 \<le> alpha st \<and> alpha st \<le> 1 \<and>
       1 / 10 \<le> distanceThreshold st \<and> distanceThreshold st \<le> 1 \<and>
       1 \<le> minRating st \<and> minRating st \<le> 10) \<and>
      (\<forall>r \<in> set (fst (ui_step env st ev)).
         (\<exists>n. map_of (body r) ''num_results'' = Some (JNumber n) \<and> 1 \<le> n \<and> n \<le> 20 \<and> \<not> n \<le> 0) \<and>
         field_in_range (body r) ''alpha'' 0 1 \<and>
         field_in_range (body r) ''distance_threshold'' (1 / 10) 1 \<and>
         field_in_range (body r) ''min_rating'' 1 10))"
proof -
  have i: "numResults initial_state = 5 \<and> alpha initial_state = 1 / 2 \<and>
   distanceThreshold initial_state = 1 / 2"
    by (simp add: initial_state_def)
  have s: "reachable st \<Longrightarrow>
       1 \<le> numResults st \<and> numResults st \<le> 20 \<and> 0 \<le> alpha st \<and> alpha st \<le> 1 \<and>
       1 / 10 \<le> distanceThreshold st \<and> distanceThreshold st \<le> 1 \<and>
       1 \<le> minRating st \<and> minRating st \<le> 10"
    using reachable_options_in_range [of st] by (simp add: options_in_range_def)
  have r: "reachable st \<Longrightarrow> \<forall>r \<in> set (fst (ui_step env st ev)).
         (\<exists>n. map_of (body r) ''num_results'' = Some (JNumber n) \<and> 1 \<le> n \<and> n \<le> 20 \<and> \<not> n \<le> 0) \<and>
         field_in_range (body r) ''alpha'' 0 1 \<and>
         field_in_range (body r) ''distance_threshold'' (1 / 10) 1 \<and>
         field_in_range (body r) ''min_rating'' 1 10"
  proof
    fix r assume "reachable st" and "r \<in> set (fst (ui_step env st ev))"
    then obtain q where "r = fst (search_call env st q)" and "options_in_range st"
      using ui_step_requests reachable_options_in_range by blast
    then show "(\<exists>n. map_of (body r) ''num_results'' = Some (JNumber n) \<and> 1 \<le> n \<and> n \<le> 20 \<and> \<not> n \<le> 0) \<and>
         field_in_range (body r) ''alpha'' 0 1 \<and>
         field_in_range (body r) ''distance_threshold'' (1 / 10) 1 \<and>
         field_in_range (body r) ''min_rating'' 1 10"
      using search_call_in_range [of st env q] by auto
  qed
  show ?thesis using i s r by blast
qed

theorem ui_requests_within_option_ranges_witness:
  "reachable example_hybrid_state \<and>
   alpha example_hybrid_state = 3 / 4 \<and>
   fst (search_call example_env example_hybrid_state (lit ''hi'')) \<in>
     set (fst (ui_step example_env example_hybrid_state (Submit (lit ''hi'')))) \<and>
   (\<exists>n. map_of (body (fst (search_call example_env example_hybrid_state (lit ''hi'')))) ''num_results'' =
          Some (JNumber n) \<and> 1 \<le> n \<and> n \<le> 20) \<and>
   has_key (body (fst (search_call example_env example_hybrid_state (lit ''hi'')))) ''alpha'' \<and>
   field_in_range (body (fst (search_call example_env example_hybrid_state (lit ''hi'')))) ''alpha'' 0 1"
proof -
  let ?a = "snd (ui_step example_env initial_state (TabClick Hybrid))"
  have a: "?a = initial_state\<lparr>searchType := Hybrid\<rparr>"
    by (simp add: ui_step_def handleSearchTypeChange_def truthy_string_def initial_state_def)
  have e1: "enabled initial_state (TabClick Hybrid)"
    by (simp add: enabled_def initial_state_def)
  have e2: "enabled ?a (SliderChange AlphaSlider (3 / 4))"
    unfolding a by (simp add: enabled_def initial_state_def FilterPanel_def range_value_def)
  have r: "reachable example_hybrid_state"
    unfolding example_hybrid_state_def
    by (rule reachable_step [OF reachable_step [OF reachable_init e1] e2])
  have s: "example_hybrid_state = initial_state\<lparr>searchType := Hybrid, alpha := 3 / 4\<rparr>"
    unfolding example_hybrid_state_def a by (simp add: ui_step_def)
  have al: "alpha example_hybrid_state = 3 / 4" by (simp add: s)
  have m: "fst (search_call example_env example_hybrid_state (lit ''hi'')) \<in>
     set (fst (ui_step example_env example_hybrid_state (Submit (lit ''hi''))))"
    by (simp add: ui_step_def handleSubmit_def truthy_string_def trim_hi fst_handleSearch)
       (simp add: lit_def)
  have k: "has_key (body (fst (search_call example_env example_hybrid_state (lit ''hi'')))) ''alpha''"
    by (simp add: fst_search_call s has_key_def)
  note T = ui_requests_within_option_ranges
      [where st = example_hybrid_state and env = example_env and ev = "Submit (lit ''hi'')"]
  from T r m have
    "(\<exists>n. map_of (body (fst (search_call example_env example_hybrid_state (lit ''hi'')))) ''num_results'' =
          Some (JNumber n) \<and> 1 \<le> n \<and> n \<le> 20) \<and>
     field_in_range (body (fst (search_call example_env example_hybrid_state (lit ''hi'')))) ''alpha'' 0 1"
    by blast
  with r al m k show ?thesis by blast
qed

section \<open>The chat request\<close>

text \<open>
  C9. Every request \<open>sendMessage\<close> sends has the body
  \<open>{message: text, use_cache: true}\<close>, with the text as it was entered; a send whose text
  is not blank, with no send in flight, sends exactly that one request. The form and the
  suggestion buttons send through \<open>sendMessage\<close>.
\<close>

theorem chat_request_body:
  "(\<forall>r \<in> set (fst (sendMessage env snap text st)).
      r = chat_request text \<and>
      body r = [(''message'', JString text), (''use_cache'', JBool True)]) \<and>
   (trim text \<noteq> [] \<and> \<not> chat_state.isLoading snap \<longrightarrow>
      fst (sendMessage env snap text st) = [chat_request text]) \<and>
   fst (chat_handleSubmit env st) = fst (sendMessage env st (input st) st) \<and>
   fst (handleSuggestionClick env st suggestion) = fst (sendMessage env st suggestion st)"
  by (simp add: sendMessage_def truthy_string_def Let_def chat_request_def
      chat_handleSubmit_def handleSuggestionClick_def)

theorem chat_request_body_witness:
  "trim (lit ''hi'') \<noteq> [] \<and> \<not> chat_state.isLoading example_chat_state \<and>
   fst (chat_handleSubmit example_chat_env example_chat_state) = [chat_request (lit ''hi'')] \<and>
   body (chat_request (lit ''hi'')) = [(''message'', JString (lit ''hi'')), (''use_cache'', JBool True)]"
proof -
  have a: "trim (lit ''hi'') \<noteq> []" unfolding trim_hi by (simp add: lit_def)
  have b: "\<not> chat_state.isLoading example_chat_state" by (simp add: example_chat_state_def)
  have i: "input example_chat_state = lit ''hi''" by (simp add: example_chat_state_def)
  note T = chat_request_body
      [where env = example_chat_env and snap = example_chat_state and ?text = "lit ''hi''"
         and st = example_chat_state]
  from T a b have s: "fst (sendMessage example_chat_env example_chat_state (lit ''hi'') example_chat_state) =
      [chat_request (lit ''hi'')]"
    by blast
  from T have "fst (chat_handleSubmit example_chat_env example_chat_state) =
      fst (sendMessage example_chat_env example_chat_state (input example_chat_state) example_chat_state)"
    by blast
  then have c: "fst (chat_handleSubmit example_chat_env example_chat_state) = [chat_request (lit ''hi'')]"
    unfolding i s .
  from T s have d: "body (chat_request (lit ''hi'')) =
      [(''message'', JString (lit ''hi'')), (''use_cache'', JBool True)]"
    by simp
  from a b c d show ?thesis by blast
qed

section \<open>Optional fields of a filtered search\<close>

text \<open>
  C10. The request of a filtered search has a \<open>genre\<close> field exactly when the selected
  genre is not \<open>all\<close> (and then it is the selected genre), and a \<open>min_rating\<close> field
  exactly when the minimum rating is greater than 1 (and then it is that rating): a
  minimum rating of exactly 1 is left out of the request.
\<close>

theorem filtered_optional_fields:
  "searchType snap = Filtered \<Longrightarrow>
   (\<exists>r. fst (handleSearch env snap q st) = [r] \<and>
        url r = API_BASE env @ ''/search/filtered'' \<and>
        (has_key (body r) ''genre'' \<longleftrightarrow> app_state.genre snap \<noteq> lit ''all'') \<and>
        (app_state.genre snap \<noteq> lit ''all'' \<longrightarrow>
           map_of (body r) ''genre'' = Some (JString (app_state.genre snap))) \<and>
        (has_key (body r) ''min_rating'' \<longleftrightarrow> minRating snap > 1) \<and>
        (minRating snap > 1 \<longrightarrow> map_of (body r) ''min_rating'' = Some (JNumber (minRating snap))) \<and>
        (minRating snap = 1 \<longrightarrow> map_of (body r) ''min_rating'' = None))"
  by (simp add: fst_handleSearch fst_search_call has_key_def)

theorem filtered_optional_fields_witness:
  "searchType example_filtered_state = Filtered \<and>
   app_state.genre example_filtered_state \<noteq> lit ''all'' \<and>
   minRating example_filtered_state = 1 \<and>
   (\<exists>r. fst (handleSearch example_env example_filtered_state (lit ''hi'') example_filtered_state) = [r] \<and>
        map_of (body r) ''genre'' = Some (JString (lit ''action'')) \<and>
        map_of (body r) ''min_rating'' = None)"
proof -
  have a: "searchType example_filtered_state = Filtered"
    and g: "app_state.genre example_filtered_state = lit ''action''"
    and m: "minRating example_filtered_state = 1"
    by (simp_all add: example_filtered_state_def initial_state_def)
  have n: "app_state.genre example_filtered_state \<noteq> lit ''all''"
    unfolding g by (simp add: lit_eq_iff)
  from filtered_optional_fields [OF a, of example_env "lit ''hi''" example_filtered_state] n m
  have "\<exists>r. fst (handleSearch example_env example_filtered_state (lit ''hi'') example_filtered_state) = [r] \<and>
        map_of (body r) ''genre'' = Some (JString (app_state.genre example_filtered_state)) \<and>
        map_of (body r) ''min_rating'' = None"
    by blast
  with a n m show ?thesis unfolding g by blast
qed

end
